theory Spec2Isabelle
  imports Main "HOL-Library.Sublist"
begin

section \<open>The document store\<close>

text \<open>
  The backend (convex/auth.ts and convex/battlesnake.ts) works on a document store. A table
  is the list of its documents in creation order, each with its \<open>_id\<close>. Document ids are
  opaque strings. \<open>ctx.db.get\<close> looks a document up by id, an indexed query followed by
  \<open>.first()\<close> returns the oldest document that matches, \<open>ctx.db.patch\<close> overwrites the
  listed fields of the document with the given id (a field patched to \<open>undefined\<close> is
  removed, every other field is kept) and \<open>ctx.db.insert\<close> appends a document under a
  new id. The handlers below patch only documents they have read before.

  Numbers of the schema (\<open>v.number()\<close>) are modelled as integers: the ones the handlers compute
  with are millisecond timestamps, counters and HTTP status codes. A query or mutation runs
  with the clock fixed at its start, so each handler takes one reading \<open>now\<close> of
  \<open>Date.now()\<close>; the action \<open>executeTestRun\<close> runs in real time and takes each reading
  separately. Strings are lists of 8-bit characters, so code units above 255 are outside
  the model. A thrown \<open>Error\<close> is the value \<open>Inl message\<close>. A mutation is a transaction:
  when its handler throws, none of its writes is committed, and the store after the call
  is the store before it.
\<close>

type_synonym id = string

type_synonym 'd table = "(id \<times> 'd) list"

definition db_get :: "'d table \<Rightarrow> id \<Rightarrow> 'd option" where
  "db_get tbl i = map_of tbl i"

definition db_first :: "('d \<Rightarrow> bool) \<Rightarrow> 'd table \<Rightarrow> (id \<times> 'd) option" where
  "db_first P tbl = find (\<lambda>(i, d). P d) tbl"

definition db_patch :: "id \<Rightarrow> ('d \<Rightarrow> 'd) \<Rightarrow> 'd table \<Rightarrow> 'd table" where
  "db_patch i f tbl = map (\<lambda>(j, d). if j = i then (j, f d) else (j, d)) tbl"

definition db_insert :: "id \<Rightarrow> 'd \<Rightarrow> 'd table \<Rightarrow> 'd table" where
  "db_insert i d tbl = tbl @ [(i, d)]"

subsection \<open>The schema (convex/schema.ts)\<close>

record coordinate =
  coord_x :: int
  coord_y :: int

record snake =
  snake_id :: string
  snake_name :: string
  health :: int
  body :: "coordinate list"
  head :: coordinate
  snake_length :: int
  latency :: "string option"
  snake_shout :: "string option"
  squad :: "string option"
  headEmoji :: "string option"

record board =
  height :: int
  width :: int
  food :: "coordinate list"
  hazards :: "coordinate list"
  snakes :: "snake list"

record settings =
  foodSpawnChance :: "int option"
  minimumFood :: "int option"
  hazardDamagePerTurn :: "int option"
  hazardMap :: "string option"

record ruleset =
  ruleset_name :: "string option"
  version :: "string option"
  settings :: "settings option"

record game =
  game_id :: "string option"
  ruleset :: "ruleset option"
  game_map :: "string option"
  timeout :: "int option"

datatype test_status = Approved | Pending | Rejected | Private

record test =
  name :: string
  description :: "string option"
  board :: board
  game :: "game option"
  turn :: int
  youId :: string
  expectedSafeMoves :: "string list"
  createdAt :: int
  ownerId :: "id option"
  status :: "test_status option"
  approvedBy :: "id option"
  approvedAt :: "int option"
  rejectionReason :: "string option"
  permaRejected :: "bool option"

record user =
  email :: string
  emailLower :: string
  passwordHash :: "string option"
  username :: string
  isAdmin :: bool
  user_createdAt :: int
  googleId :: "string option"
  googleName :: "string option"

record userSession =
  userId :: id
  token :: string
  session_createdAt :: int
  expiresAt :: int

record adminSession =
  admin_token :: string
  admin_createdAt :: int
  admin_expiresAt :: int

record rateLimit =
  clientId :: string
  windowStart :: int
  attempts :: int
  blockedUntil :: "int option"

datatype run_status = Running | Completed | Failed

record testRun =
  testId :: id
  run_userId :: id
  botUrl :: string
  run_status :: run_status
  move :: "string option"
  shout :: "string option"
  passed :: "bool option"
  error :: "string option"
  httpStatus :: "nat option"
  rawResponse :: "string option"
  responseTimeMs :: "int option"
  startedAt :: int
  completedAt :: "int option"

text \<open>
  The payload of the POST to the bot, and the request as \<open>fetch\<close> receives it. The body is
  kept as the object handed to \<open>JSON.stringify\<close>.
\<close>

record requestGame =
  rg_id :: string
  rg_ruleset :: ruleset
  rg_map :: string
  rg_timeout :: int

record requestBody =
  rb_game :: requestGame
  rb_turn :: int
  rb_board :: board
  rb_you :: snake

record http_request =
  req_url :: string
  req_method :: string
  req_headers :: "(string \<times> string) list"
  req_body :: requestBody

text \<open>The store, together with the requests handed to \<open>fetch\<close> so far.\<close>

record world =
  users :: "user table"
  userSessions :: "userSession table"
  adminSessions :: "adminSession table"
  adminRateLimits :: "rateLimit table"
  tests :: "test table"
  testRuns :: "testRun table"
  outbound :: "http_request list"

section \<open>Sessions (convex/auth.ts, convex/battlesnake.ts)\<close>

text \<open>
  \<open>requireUserSession\<close> and \<open>requireAdmin\<close> receive the read-only database of a query
  context (\<open>ctx: { db: QueryCtx["db"] }\<close>): they return a result and cannot write.
\<close>

definition requireUserSession :: "int \<Rightarrow> string \<Rightarrow> world \<Rightarrow> string + (id \<times> bool)" where
  "requireUserSession now tok w =
     (case db_first (\<lambda>s. token s = tok) (userSessions w) of
        None \<Rightarrow> Inl ''Session invalid. Please log in again.''
      | Some (sid, session) \<Rightarrow>
          if expiresAt session < now then Inl ''Session expired. Please log in again.''
          else (case db_get (users w) (userId session) of
                  None \<Rightarrow> Inl ''User not found. Please log in again.''
                | Some u \<Rightarrow> Inr (userId session, isAdmin u)))"

definition requireAdmin :: "int \<Rightarrow> string \<Rightarrow> world \<Rightarrow> string + id" where
  "requireAdmin now tok w =
     (case requireUserSession now tok w of
        Inl e \<Rightarrow> Inl e
      | Inr (uid, adm) \<Rightarrow> if \<not> adm then Inl ''Admin access required.'' else Inr uid)"

text \<open>
  \<open>requireAdminSession\<close> (the legacy admin token of convex/battlesnake.ts) is called only
  as the first statement of the mutations \<open>createTest\<close>, \<open>updateTest\<close> and \<open>deleteTest\<close>,
  none of which catches what it throws. On an expired session it calls \<open>ctx.db.delete\<close>
  on the session and then throws; the throw aborts the mutation, the delete is not
  committed, and the session is still in the store after the call.
\<close>

definition requireAdminSession :: "int \<Rightarrow> string \<Rightarrow> world \<Rightarrow> (string + unit) \<times> world" where
  "requireAdminSession now tok w =
     (case db_first (\<lambda>s. admin_token s = tok) (adminSessions w) of
        None \<Rightarrow> (Inl ''Admin session invalid. Sign in again.'', w)
      | Some (sid, session) \<Rightarrow>
          if admin_expiresAt session < now
          then (Inl ''Admin session expired. Sign in again.'', w)
          else (Inr (), w))"

record userInfo =
  ui_id :: id
  ui_email :: string
  ui_username :: string
  ui_isAdmin :: bool

definition getCurrentUser :: "int \<Rightarrow> string option \<Rightarrow> world \<Rightarrow> userInfo option" where
  "getCurrentUser now tok_opt w =
     (case tok_opt of
        None \<Rightarrow> None
      | Some tok \<Rightarrow>
          if tok = [] then None
          else (case db_first (\<lambda>s. token s = tok) (userSessions w) of
                  None \<Rightarrow> None
                | Some (sid, session) \<Rightarrow>
                    if expiresAt session < now then None
                    else (case db_get (users w) (userId session) of
                            None \<Rightarrow> None
                          | Some u \<Rightarrow>
                              Some \<lparr>ui_id = userId session, ui_email = email u,
                                    ui_username = username u, ui_isAdmin = isAdmin u\<rparr>)))"

section \<open>Moderation of tests (convex/battlesnake.ts)\<close>

record test_args =
  arg_name :: string
  arg_description :: "string option"
  arg_board :: board
  arg_game :: "game option"
  arg_turn :: int
  arg_youId :: string
  arg_expectedSafeMoves :: "string list"

definition patch_test :: "id \<Rightarrow> (test \<Rightarrow> test) \<Rightarrow> world \<Rightarrow> world" where
  "patch_test i f w = w\<lparr>tests := db_patch i f (tests w)\<rparr>"

definition youExists :: "test_args \<Rightarrow> bool" where
  "youExists args = list_ex (\<lambda>snakeItem. snake_id snakeItem = arg_youId args) (snakes (arg_board args))"

definition updateUserTest ::
  "int \<Rightarrow> string \<Rightarrow> id \<Rightarrow> test_args \<Rightarrow> world \<Rightarrow> (string + test option) \<times> world" where
  "updateUserTest now tok i args w =
     (case requireUserSession now tok w of
        Inl e \<Rightarrow> (Inl e, w)
      | Inr (uid, adm) \<Rightarrow>
          (case db_get (tests w) i of
             None \<Rightarrow> (Inl ''Test not found.'', w)
           | Some t \<Rightarrow>
               if ownerId t \<noteq> Some uid
               then (Inl ''You don't have permission to edit this test.'', w)
               else if \<not> youExists args
               then (Inl ''youId must match a snake in the board.'', w)
               else
                 let w' = patch_test i (\<lambda>d. d\<lparr>name := arg_name args,
                             description := arg_description args,
                             board := arg_board args,
                             game := arg_game args,
                             turn := arg_turn args,
                             youId := arg_youId args,
                             expectedSafeMoves := arg_expectedSafeMoves args,
                             status := Some Pending\<rparr>) w
                 in (Inr (db_get (tests w') i), w')))"

definition adminUpdateTest ::
  "int \<Rightarrow> string \<Rightarrow> id \<Rightarrow> test_args \<Rightarrow> world \<Rightarrow> (string + test option) \<times> world" where
  "adminUpdateTest now tok i args w =
     (case requireUserSession now tok w of
        Inl e \<Rightarrow> (Inl e, w)
      | Inr (uid, adm) \<Rightarrow>
          if \<not> adm then (Inl ''Admin access required.'', w)
          else
          (case db_get (tests w) i of
             None \<Rightarrow> (Inl ''Test not found.'', w)
           | Some t \<Rightarrow>
               if \<not> youExists args
               then (Inl ''youId must match a snake in the board.'', w)
               else
                 let w' = patch_test i (\<lambda>d. d\<lparr>name := arg_name args,
                             description := arg_description args,
                             board := arg_board args,
                             game := arg_game args,
                             turn := arg_turn args,
                             youId := arg_youId args,
                             expectedSafeMoves := arg_expectedSafeMoves args\<rparr>) w
                 in (Inr (db_get (tests w') i), w')))"

definition approveTest ::
  "int \<Rightarrow> string \<Rightarrow> id \<Rightarrow> world \<Rightarrow> (string + test option) \<times> world" where
  "approveTest now tok i w =
     (case requireAdmin now tok w of
        Inl e \<Rightarrow> (Inl e, w)
      | Inr uid \<Rightarrow>
          (case db_get (tests w) i of
             None \<Rightarrow> (Inl ''Test not found.'', w)
           | Some t \<Rightarrow>
               let w' = patch_test i (\<lambda>d. d\<lparr>status := Some Approved,
                           approvedBy := Some uid,
                           approvedAt := Some now,
                           rejectionReason := None\<rparr>) w
               in (Inr (db_get (tests w') i), w')))"

definition rejectTest ::
  "int \<Rightarrow> string \<Rightarrow> id \<Rightarrow> string option \<Rightarrow> world \<Rightarrow> (string + test option) \<times> world" where
  "rejectTest now tok i reason w =
     (case requireAdmin now tok w of
        Inl e \<Rightarrow> (Inl e, w)
      | Inr uid \<Rightarrow>
          (case db_get (tests w) i of
             None \<Rightarrow> (Inl ''Test not found.'', w)
           | Some t \<Rightarrow>
               let w' = patch_test i (\<lambda>d. d\<lparr>status := Some Rejected,
                           rejectionReason := reason\<rparr>) w
               in (Inr (db_get (tests w') i), w')))"

definition permaRejectTest ::
  "int \<Rightarrow> string \<Rightarrow> id \<Rightarrow> string option \<Rightarrow> world \<Rightarrow> (string + test option) \<times> world" where
  "permaRejectTest now tok i reason w =
     (case requireAdmin now tok w of
        Inl e \<Rightarrow> (Inl e, w)
      | Inr uid \<Rightarrow>
          (case db_get (tests w) i of
             None \<Rightarrow> (Inl ''Test not found.'', w)
           | Some t \<Rightarrow>
               let w' = patch_test i (\<lambda>d. d\<lparr>status := Some Rejected,
                           rejectionReason := reason,
                           permaRejected := Some True\<rparr>) w
               in (Inr (db_get (tests w') i), w')))"

definition resubmitTest ::
  "int \<Rightarrow> string \<Rightarrow> id \<Rightarrow> world \<Rightarrow> (string + test option) \<times> world" where
  "resubmitTest now tok i w =
     (case requireUserSession now tok w of
        Inl e \<Rightarrow> (Inl e, w)
      | Inr (uid, adm) \<Rightarrow>
          (case db_get (tests w) i of
             None \<Rightarrow> (Inl ''Test not found.'', w)
           | Some t \<Rightarrow>
               if ownerId t \<noteq> Some uid
               then (Inl ''You don't have permission to resubmit this test.'', w)
               else if status t \<noteq> Some Rejected
               then (Inl ''Only rejected tests can be resubmitted.'', w)
               else if permaRejected t = Some True
               then (Inl ''This test has been permanently rejected and cannot be resubmitted.'', w)
               else
                 let w' = patch_test i (\<lambda>d. d\<lparr>status := Some Pending,
                             rejectionReason := None\<rparr>) w
                 in (Inr (db_get (tests w') i), w')))"

definition makeTestPrivate ::
  "int \<Rightarrow> string \<Rightarrow> id \<Rightarrow> world \<Rightarrow> (string + test option) \<times> world" where
  "makeTestPrivate now tok i w =
     (case requireAdmin now tok w of
        Inl e \<Rightarrow> (Inl e, w)
      | Inr uid \<Rightarrow>
          (case db_get (tests w) i of
             None \<Rightarrow> (Inl ''Test not found.'', w)
           | Some t \<Rightarrow>
               let w' = patch_test i (\<lambda>d. d\<lparr>status := Some Private\<rparr>) w
               in (Inr (db_get (tests w') i), w')))"

text \<open>
  The mutations that patch an existing test, as calls, and a run of such calls, each at
  its own time. A call that throws leaves the store as it was.
\<close>

datatype moderation_call =
    ApproveTest string id
  | RejectTest string id "string option"
  | PermaRejectTest string id "string option"
  | MakeTestPrivate string id
  | ResubmitTest string id
  | UpdateUserTest string id test_args
  | AdminUpdateTest string id test_args

fun perform :: "int \<Rightarrow> moderation_call \<Rightarrow> world \<Rightarrow> (string + test option) \<times> world" where
  "perform now (ApproveTest tok i) w = approveTest now tok i w"
| "perform now (RejectTest tok i reason) w = rejectTest now tok i reason w"
| "perform now (PermaRejectTest tok i reason) w = permaRejectTest now tok i reason w"
| "perform now (MakeTestPrivate tok i) w = makeTestPrivate now tok i w"
| "perform now (ResubmitTest tok i) w = resubmitTest now tok i w"
| "perform now (UpdateUserTest tok i args) w = updateUserTest now tok i args w"
| "perform now (AdminUpdateTest tok i args) w = adminUpdateTest now tok i args w"

fun perform_all :: "(int \<times> moderation_call) list \<Rightarrow> world \<Rightarrow> world" where
  "perform_all [] w = w"
| "perform_all ((now, c) # cs) w = perform_all cs (snd (perform now c w))"

section \<open>Login and its rate limiter (convex/auth.ts)\<close>

definition SESSION_TTL_MS :: int where
  "SESSION_TTL_MS = 24 * 60 * 60 * 1000"

definition RATE_LIMIT_WINDOW_MS :: int where
  "RATE_LIMIT_WINDOW_MS = 5 * 60 * 1000"

definition RATE_LIMIT_MAX_ATTEMPTS :: int where
  "RATE_LIMIT_MAX_ATTEMPTS = 5"

text \<open>
  The string operations of the JavaScript library that the handlers use, on 8-bit
  characters: \<open>trim\<close> removes white space and line terminators at both ends (tab, line
  feed, vertical tab, form feed, carriage return, space and no-break space),
  \<open>toLowerCase\<close> maps A to Z and the capital letters of Latin-1 to their small letters.
\<close>

definition is_whitespace :: "char \<Rightarrow> bool" where
  "is_whitespace c = ((of_char c :: nat) \<in> {9, 10, 11, 12, 13, 32, 160})"

definition trim :: "string \<Rightarrow> string" where
  "trim s = rev (dropWhile is_whitespace (rev (dropWhile is_whitespace s)))"

definition toLowerCase_char :: "char \<Rightarrow> char" where
  "toLowerCase_char c =
     (let n = (of_char c :: nat)
      in if (65 \<le> n \<and> n \<le> 90) \<or> (192 \<le> n \<and> n \<le> 222 \<and> n \<noteq> 215)
         then char_of (n + 32) else c)"

definition toLowerCase :: "string \<Rightarrow> string" where
  "toLowerCase s = map toLowerCase_char s"

text \<open>JavaScript truthiness of an optional number: defined and not zero.\<close>

definition truthy :: "int option \<Rightarrow> bool" where
  "truthy v = (case v of None \<Rightarrow> False | Some n \<Rightarrow> n \<noteq> 0)"

definition limiter_of :: "string \<Rightarrow> world \<Rightarrow> (id \<times> rateLimit) option" where
  "limiter_of cid w = db_first (\<lambda>l. clientId l = cid) (adminRateLimits w)"

definition checkRateLimit :: "int \<Rightarrow> string \<Rightarrow> world \<Rightarrow> bool \<times> int option" where
  "checkRateLimit now cid w =
     (case limiter_of cid w of
        None \<Rightarrow> (False, None)
      | Some (lid, limiter) \<Rightarrow>
          (case blockedUntil limiter of
             None \<Rightarrow> (False, None)
           | Some b \<Rightarrow> if b \<noteq> 0 \<and> b > now then (True, Some b) else (False, None)))"

text \<open>\<open>fresh\<close> is the id the store gives to the document an insert creates.\<close>

definition recordFailedAttempt ::
  "int \<Rightarrow> id \<Rightarrow> string \<Rightarrow> world \<Rightarrow> (bool \<times> int option) \<times> world" where
  "recordFailedAttempt now fresh cid w =
     (let limiter = limiter_of cid w;
          windowStart0 = (case limiter of None \<Rightarrow> now | Some (lid, l) \<Rightarrow> windowStart l);
          withinWindow = (now - windowStart0 < RATE_LIMIT_WINDOW_MS);
          attempts0 = (if withinWindow
                       then (case limiter of None \<Rightarrow> 0 | Some (lid, l) \<Rightarrow> attempts l)
                       else 0);
          nextAttempts = attempts0 + 1;
          blockedUntil0 = (if nextAttempts \<ge> RATE_LIMIT_MAX_ATTEMPTS
                           then Some (now + RATE_LIMIT_WINDOW_MS) else None);
          w' = (case limiter of
                  Some (lid, l) \<Rightarrow>
                    w\<lparr>adminRateLimits := db_patch lid
                         (\<lambda>d. d\<lparr>windowStart := (if withinWindow then windowStart0 else now),
                                 attempts := nextAttempts,
                                 blockedUntil := blockedUntil0\<rparr>) (adminRateLimits w)\<rparr>
                | None \<Rightarrow>
                    w\<lparr>adminRateLimits := db_insert fresh
                         \<lparr>clientId = cid, windowStart = now, attempts = nextAttempts,
                          blockedUntil = blockedUntil0\<rparr> (adminRateLimits w)\<rparr>)
      in ((truthy blockedUntil0, blockedUntil0), w'))"

definition resetRateLimit :: "int \<Rightarrow> string \<Rightarrow> world \<Rightarrow> world" where
  "resetRateLimit now cid w =
     (case limiter_of cid w of
        None \<Rightarrow> w
      | Some (lid, l) \<Rightarrow>
          w\<lparr>adminRateLimits := db_patch lid
               (\<lambda>d. d\<lparr>windowStart := now, attempts := 0, blockedUntil := None\<rparr>)
               (adminRateLimits w)\<rparr>)"

text \<open>
  \<open>login\<close> returns an object (\<open>ok: false\<close> with an error and, when blocked, \<open>retryAt\<close>; or
  \<open>ok: true\<close> with the token and the user). \<open>compareSync\<close> is bcrypt's comparison of a
  password with a hash, which throws when the hash is not a string; \<open>uuid\<close> is the value
  of \<open>crypto.randomUUID()\<close>.
\<close>

datatype login_response = LoginError string "int option" | LoginOk string userInfo

record login_call =
  call_now :: int
  call_fresh :: id
  call_uuid :: string
  call_email :: string
  call_password :: string

definition login ::
  "(string \<Rightarrow> string \<Rightarrow> bool) \<Rightarrow> string \<Rightarrow> login_call \<Rightarrow> world
     \<Rightarrow> (string + login_response) \<times> world" where
  "login compareSync cid c w =
     (let rateCheck = checkRateLimit (call_now c) cid w
      in if fst rateCheck
         then (Inr (LoginError ''Too many attempts. Try again later.'' (snd rateCheck)), w)
         else
           (case db_first (\<lambda>u. emailLower u = trim (toLowerCase (call_email c))) (users w) of
              None \<Rightarrow>
                (Inr (LoginError ''Invalid email or password.'' None),
                 snd (recordFailedAttempt (call_now c) (call_fresh c) cid w))
            | Some (uid, u) \<Rightarrow>
                (case passwordHash u of
                   None \<Rightarrow> (Inl ''Illegal arguments: string, undefined'', w)
                 | Some h \<Rightarrow>
                     if \<not> compareSync (call_password c) h
                     then (Inr (LoginError ''Invalid email or password.'' None),
                           snd (recordFailedAttempt (call_now c) (call_fresh c) cid w))
                     else
                       let w1 = resetRateLimit (call_now c) cid w;
                           w2 = w1\<lparr>userSessions := db_insert (call_fresh c)
                                  \<lparr>userId = uid, token = call_uuid c,
                                   session_createdAt = call_now c,
                                   expiresAt = call_now c + SESSION_TTL_MS\<rparr>
                                  (userSessions w1)\<rparr>
                       in (Inr (LoginOk (call_uuid c)
                                 \<lparr>ui_id = uid, ui_email = email u,
                                  ui_username = username u, ui_isAdmin = isAdmin u\<rparr>), w2))))"

text \<open>A client's login attempts one after the other.\<close>

fun logins :: "(string \<Rightarrow> string \<Rightarrow> bool) \<Rightarrow> string \<Rightarrow> login_call list \<Rightarrow> world \<Rightarrow> world" where
  "logins compareSync cid [] w = w"
| "logins compareSync cid (c # cs) w = logins compareSync cid cs (snd (login compareSync cid c w))"

text \<open>
  The two outcomes of the credential check in \<open>login\<close>: a failed attempt (no user with the
  email, or a password that does not match the stored hash), and correct credentials.
  A user without a stored hash is neither: \<open>compareSync\<close> throws.
\<close>

definition bad_credentials :: "(string \<Rightarrow> string \<Rightarrow> bool) \<Rightarrow> login_call \<Rightarrow> user table \<Rightarrow> bool" where
  "bad_credentials compareSync c us =
     (case db_first (\<lambda>u. emailLower u = trim (toLowerCase (call_email c))) us of
        None \<Rightarrow> True
      | Some (uid, u) \<Rightarrow>
          (case passwordHash u of None \<Rightarrow> False | Some h \<Rightarrow> \<not> compareSync (call_password c) h))"

definition good_credentials :: "(string \<Rightarrow> string \<Rightarrow> bool) \<Rightarrow> login_call \<Rightarrow> user table \<Rightarrow> bool" where
  "good_credentials compareSync c us =
     (case db_first (\<lambda>u. emailLower u = trim (toLowerCase (call_email c))) us of
        None \<Rightarrow> False
      | Some (uid, u) \<Rightarrow>
          (case passwordHash u of None \<Rightarrow> False | Some h \<Rightarrow> compareSync (call_password c) h))"

text \<open>The attempts that count at time \<open>now\<close>: those of the record, while its window is open.\<close>

definition open_attempts :: "int \<Rightarrow> string \<Rightarrow> world \<Rightarrow> int" where
  "open_attempts now cid w =
     (case limiter_of cid w of
        None \<Rightarrow> 0
      | Some (lid, l) \<Rightarrow> if now - windowStart l < RATE_LIMIT_WINDOW_MS then attempts l else 0)"

section \<open>Running a test against a bot (convex/battlesnake.ts)\<close>

text \<open>
  A parsed JSON value. An object is the list of its properties, each key once. Only the
  type of a number matters to the handler.
\<close>

datatype json =
    JNull
  | JBool bool
  | JNumber int
  | JString string
  | JArray "json list"
  | JObject "(string \<times> json) list"

text \<open>
  \<open>data?.move\<close>: the property of an object, and \<open>undefined\<close> on \<open>null\<close> and on every value
  that is not an object holding the key.
\<close>

fun property :: "json \<Rightarrow> string \<Rightarrow> json option" where
  "property (JObject kvs) k = map_of kvs k"
| "property v k = None"

text \<open>\<open>typeof v === "string" ? v : null\<close>\<close>

fun string_or_null :: "json option \<Rightarrow> string option" where
  "string_or_null (Some (JString s)) = Some s"
| "string_or_null v = None"

text \<open>
  What \<open>fetch\<close> and \<open>response.text()\<close> give: a response with its status and body text, or
  a thrown value, with its message when it is an \<open>Error\<close>.
\<close>

datatype fetch_outcome = Threw "string option" | Responded nat string

text \<open>
  What the action takes from its environment: \<open>JSON.parse\<close> (\<open>None\<close> when it throws),
  \<open>JSON.stringify\<close>, \<open>fetch\<close>, the two clock readings around the call and the reading of
  the mutation that writes the result.
\<close>

record runtime =
  JSON_parse :: "string \<Rightarrow> json option"
  JSON_stringify :: "json \<Rightarrow> string"
  fetch :: "http_request \<Rightarrow> fetch_outcome"
  fetchStart :: int
  fetchEnd :: int
  resultNow :: int

text \<open>The decimal digits of a number, as a template literal prints a status.\<close>

fun decimal :: "nat \<Rightarrow> string" where
  "decimal n = (if n < 10 then [char_of (48 + n)] else decimal (n div 10) @ [char_of (48 + n mod 10)])"

declare decimal.simps [simp del]

text \<open>
  \<open>s.replace(/\/+$/, "")\<close>: the match starts at the first position from which the rest
  of the string is one or more slashes, and is removed.
\<close>

fun replace_trailing_slashes :: "string \<Rightarrow> string" where
  "replace_trailing_slashes [] = []"
| "replace_trailing_slashes (c # cs) =
     (if c = CHR ''/'' \<and> list_all (\<lambda>d. d = CHR ''/'') cs then []
      else c # replace_trailing_slashes cs)"

definition endsWith :: "string \<Rightarrow> string \<Rightarrow> bool" where
  "endsWith s suf = (length suf \<le> length s \<and> drop (length s - length suf) s = suf)"

definition slice_1000 :: "string \<Rightarrow> string" where
  "slice_1000 s = take 1000 s"

definition response_ok :: "nat \<Rightarrow> bool" where
  "response_ok st = (200 \<le> st \<and> st \<le> 299)"

record result_args =
  ra_status :: run_status
  ra_move :: "string option"
  ra_shout :: "string option"
  ra_passed :: "bool option"
  ra_error :: "string option"
  ra_httpStatus :: "nat option"
  ra_rawResponse :: "string option"
  ra_responseTimeMs :: "int option"

definition updateTestRunResult :: "int \<Rightarrow> id \<Rightarrow> result_args \<Rightarrow> world \<Rightarrow> world" where
  "updateTestRunResult now runId args w =
     w\<lparr>testRuns := db_patch runId
          (\<lambda>d. d\<lparr>run_status := ra_status args,
                  move := ra_move args,
                  shout := ra_shout args,
                  passed := ra_passed args,
                  error := ra_error args,
                  httpStatus := ra_httpStatus args,
                  rawResponse := ra_rawResponse args,
                  responseTimeMs := ra_responseTimeMs args,
                  completedAt := Some now\<rparr>) (testRuns w)\<rparr>"

text \<open>The arguments of a call that passes only \<open>status: "failed"\<close> and \<open>error\<close>.\<close>

definition failed_with :: "string \<Rightarrow> result_args" where
  "failed_with msg =
     \<lparr>ra_status = Failed, ra_move = None, ra_shout = None, ra_passed = None,
      ra_error = Some msg, ra_httpStatus = None, ra_rawResponse = None,
      ra_responseTimeMs = None\<rparr>"

definition default_ruleset :: ruleset where
  "default_ruleset =
     \<lparr>ruleset_name = Some ''standard'', version = Some ''1.0.0'',
      settings = Some \<lparr>foodSpawnChance = Some 0, minimumFood = Some 0,
                        hazardDamagePerTurn = Some 100, hazardMap = Some ''custom''\<rparr>\<rparr>"

definition build_requestBody :: "id \<Rightarrow> test \<Rightarrow> snake \<Rightarrow> requestBody" where
  "build_requestBody tid t you =
     \<lparr>rb_game =
        \<lparr>rg_id = (case Option.bind (game t) game_id of Some i \<Rightarrow> i | None \<Rightarrow> ''test-'' @ tid),
         rg_ruleset = (case Option.bind (game t) ruleset of Some r \<Rightarrow> r | None \<Rightarrow> default_ruleset),
         rg_map = (case Option.bind (game t) game_map of Some m \<Rightarrow> m | None \<Rightarrow> ''custom''),
         rg_timeout = (case Option.bind (game t) timeout of Some n \<Rightarrow> n | None \<Rightarrow> 500)\<rparr>,
      rb_turn = turn t,
      rb_board = board t,
      rb_you = you\<rparr>"

text \<open>
  The endpoint for a trimmed, non-empty bot URL, and the POST that \<open>fetch\<close> is called with.
\<close>

definition endpoint_of :: "string \<Rightarrow> string" where
  "endpoint_of rawUrl =
     (let normalizedUrl = replace_trailing_slashes rawUrl
      in if endsWith normalizedUrl ''/move'' then normalizedUrl else normalizedUrl @ ''/move'')"

definition bot_request :: "string \<Rightarrow> id \<Rightarrow> test \<Rightarrow> snake \<Rightarrow> http_request" where
  "bot_request rawUrl tid t you =
     \<lparr>req_url = endpoint_of rawUrl, req_method = ''POST'',
      req_headers = [(''Content-Type'', ''application/json'')],
      req_body = build_requestBody tid t you\<rparr>"

text \<open>
  The action returns an object: \<open>ok: false\<close> with an error, or \<open>ok: true\<close> with the move,
  the shout, \<open>passed\<close> and the response time.
\<close>

datatype run_result =
    RunError string
  | RunOk "string option" "string option" bool int

definition executeTestRun :: "runtime \<Rightarrow> id \<Rightarrow> world \<Rightarrow> run_result \<times> world" where
  "executeTestRun rt runId w =
     (case db_get (testRuns w) runId of
        None \<Rightarrow> (RunError ''Test run not found.'', w)
      | Some run \<Rightarrow>
        if run_status run \<noteq> Running
        then (RunError ''Test run is not in running state.'', w)
        else
        (case db_get (tests w) (testId run) of
           None \<Rightarrow>
             (RunError ''Test not found.'',
              updateTestRunResult (resultNow rt) runId (failed_with ''Test not found.'') w)
         | Some t \<Rightarrow>
           (case find (\<lambda>snakeItem. snake_id snakeItem = youId t) (snakes (board t)) of
              None \<Rightarrow>
                (RunError ''You snake not found in test.'',
                 updateTestRunResult (resultNow rt) runId
                   (failed_with ''You snake not found in test.'') w)
            | Some you \<Rightarrow>
              let rawUrl = trim (botUrl run)
              in if rawUrl = []
                 then (RunError ''Bot URL is required.'',
                       updateTestRunResult (resultNow rt) runId
                         (failed_with ''Bot URL is required.'') w)
                 else
                 let request = bot_request rawUrl (testId run) t you;
                     w1 = w\<lparr>outbound := outbound w @ [request]\<rparr>
                 in (case fetch rt request of
                       Threw msg \<Rightarrow>
                         let errorMsg = (case msg of Some m \<Rightarrow> m | None \<Rightarrow> ''Request failed.'')
                         in (RunError errorMsg,
                             updateTestRunResult (resultNow rt) runId (failed_with errorMsg) w1)
                     | Responded st responseText \<Rightarrow>
                         let responseTime = fetchEnd rt - fetchStart rt;
                             parsed = (if responseText \<noteq> [] then JSON_parse rt responseText
                                       else Some JNull)
                         in (case parsed of
                               None \<Rightarrow>
                                 let msg = ''Non-JSON response ('' @ decimal st @ '').''
                                 in (RunError msg,
                                     updateTestRunResult (resultNow rt) runId
                                       \<lparr>ra_status = Failed, ra_move = None, ra_shout = None,
                                        ra_passed = None, ra_error = Some msg,
                                        ra_httpStatus = Some st,
                                        ra_rawResponse = Some (slice_1000 responseText),
                                        ra_responseTimeMs = Some responseTime\<rparr> w1)
                             | Some data \<Rightarrow>
                                 if \<not> response_ok st
                                 then
                                   let msg = ''HTTP '' @ decimal st
                                   in (RunError msg,
                                       updateTestRunResult (resultNow rt) runId
                                         \<lparr>ra_status = Failed, ra_move = None, ra_shout = None,
                                          ra_passed = None, ra_error = Some msg,
                                          ra_httpStatus = Some st,
                                          ra_rawResponse = Some (slice_1000 (JSON_stringify rt data)),
                                          ra_responseTimeMs = Some responseTime\<rparr> w1)
                                 else
                                   let mv = string_or_null (property data ''move'');
                                       sh = string_or_null (property data ''shout'');
                                       pass = (case mv of
                                                 None \<Rightarrow> False
                                               | Some m \<Rightarrow> m \<in> set (expectedSafeMoves t))
                                   in (RunOk mv sh pass responseTime,
                                       updateTestRunResult (resultNow rt) runId
                                         \<lparr>ra_status = Completed, ra_move = mv, ra_shout = sh,
                                          ra_passed = Some pass, ra_error = None,
                                          ra_httpStatus = Some st,
                                          ra_rawResponse = Some (slice_1000 (JSON_stringify rt data)),
                                          ra_responseTimeMs = Some responseTime\<rparr> w1))))))"

section \<open>Example data\<close>

text \<open>A small store: an owner, an admin, a live session for each, an expired session of the
  owner, an expired legacy admin session, a rejected test and a permanently rejected one.\<close>

definition snake0 :: snake where
  "snake0 = \<lparr>snake_id = ''you'', snake_name = ''You'', health = 100,
     body = [\<lparr>coord_x = 1, coord_y = 1\<rparr>], head = \<lparr>coord_x = 1, coord_y = 1\<rparr>,
     snake_length = 1, latency = None, snake_shout = None, squad = None, headEmoji = None\<rparr>"

definition board0 :: board where
  "board0 = \<lparr>height = 11, width = 11, food = [], hazards = [], snakes = [snake0]\<rparr>"

definition test0 :: test where
  "test0 = \<lparr>name = ''corner'', description = None, board = board0, game = None, turn = 3,
     youId = ''you'', expectedSafeMoves = [''up'', ''right''], createdAt = 1000,
     ownerId = Some ''u1'', status = Some Rejected, approvedBy = None, approvedAt = None,
     rejectionReason = Some ''unclear'', permaRejected = None\<rparr>"

definition owner0 :: user where
  "owner0 = \<lparr>email = ''a@x.com'', emailLower = ''a@x.com'', passwordHash = Some ''hash-a'',
     username = ''alice'', isAdmin = False, user_createdAt = 500, googleId = None,
     googleName = None\<rparr>"

definition admin0 :: user where
  "admin0 = \<lparr>email = ''root@x.com'', emailLower = ''root@x.com'', passwordHash = Some ''hash-r'',
     username = ''root'', isAdmin = True, user_createdAt = 400, googleId = None,
     googleName = None\<rparr>"

definition args0 :: test_args where
  "args0 = \<lparr>arg_name = ''corner 2'', arg_description = Some ''edited'', arg_board = board0,
     arg_game = None, arg_turn = 4, arg_youId = ''you'', arg_expectedSafeMoves = [''up'']\<rparr>"

definition world0 :: world where
  "world0 = \<lparr>users = [(''u1'', owner0), (''u2'', admin0)],
     userSessions =
       [(''s1'', \<lparr>userId = ''u1'', token = ''tok-a'', session_createdAt = 2000, expiresAt = 90000\<rparr>),
        (''s2'', \<lparr>userId = ''u2'', token = ''tok-r'', session_createdAt = 2000, expiresAt = 90000\<rparr>),
        (''s3'', \<lparr>userId = ''u1'', token = ''tok-old'', session_createdAt = 10, expiresAt = 20\<rparr>)],
     adminSessions = [(''a1'', \<lparr>admin_token = ''adm-old'', admin_createdAt = 10, admin_expiresAt = 20\<rparr>)],
     adminRateLimits = [],
     tests = [(''t1'', test0), (''t2'', test0\<lparr>permaRejected := Some True\<rparr>)],
     testRuns = [],
     outbound = []\<rparr>"


text \<open>The token a moderation call is made with.\<close>

definition token_of :: "moderation_call \<Rightarrow> string" where
  "token_of c = (case c of ApproveTest tok i \<Rightarrow> tok | RejectTest tok i r \<Rightarrow> tok
     | PermaRejectTest tok i r \<Rightarrow> tok | MakeTestPrivate tok i \<Rightarrow> tok | ResubmitTest tok i \<Rightarrow> tok
     | UpdateUserTest tok i a \<Rightarrow> tok | AdminUpdateTest tok i a \<Rightarrow> tok)"

definition calls0 :: "(int \<times> moderation_call) list" where
  "calls0 = [(5000, ResubmitTest ''tok-a'' ''t2''),
             (5001, RejectTest ''tok-r'' ''t2'' None),
             (5002, UpdateUserTest ''tok-a'' ''t2'' args0),
             (5003, ApproveTest ''tok-r'' ''t2''),
             (5004, MakeTestPrivate ''tok-r'' ''t2''),
             (5005, AdminUpdateTest ''tok-r'' ''t2'' args0)]"


text \<open>
  Login attempts of one client: a stand-in for bcrypt under which the hash of a password
  is the password after "hash-", an attempt with a wrong password and one with the right
  password, at a given time, a store in which the client has four failed attempts in an
  open window, and one in which the client is blocked until 400000.
\<close>

definition compare0 :: "string \<Rightarrow> string \<Rightarrow> bool" where
  "compare0 pw h = (h = ''hash-'' @ pw)"

definition wrong_call :: "int \<Rightarrow> login_call" where
  "wrong_call t = \<lparr>call_now = t, call_fresh = ''l1'', call_uuid = ''uuid-1'',
     call_email = '' A@X.com '', call_password = ''b''\<rparr>"

definition right_call :: "int \<Rightarrow> login_call" where
  "right_call t = \<lparr>call_now = t, call_fresh = ''s9'', call_uuid = ''uuid-2'',
     call_email = '' A@X.com '', call_password = ''a''\<rparr>"

definition world_four :: world where
  "world_four = world0\<lparr>adminRateLimits :=
     [(''l1'', \<lparr>clientId = ''client'', windowStart = 1000, attempts = 4, blockedUntil = None\<rparr>)]\<rparr>"

definition world_blocked :: world where
  "world_blocked = world0\<lparr>adminRateLimits :=
     [(''l1'', \<lparr>clientId = ''client'', windowStart = 1000, attempts = 5,
               blockedUntil = Some 400000\<rparr>)]\<rparr>"

text \<open>
  A run of the rejected test against the bot at "https://x.com/move/", typed with spaces
  around it, the same run already completed and the same run with a blank URL, and an
  environment whose \<open>fetch\<close> gives a chosen outcome at
  "https://x.com/move" and throws elsewhere. Its stand-in for \<open>JSON.parse\<close> knows three
  texts, \<open>{"move":"up"}\<close>, \<open>{"move":"Up"}\<close> and \<open>null\<close>.
\<close>

definition run0 :: testRun where
  "run0 = \<lparr>testId = ''t1'', run_userId = ''u1'', botUrl = '' https://x.com/move/ '',
     run_status = Running, move = None, shout = None, passed = None, error = None,
     httpStatus = None, rawResponse = None, responseTimeMs = None, startedAt = 7000,
     completedAt = None\<rparr>"

definition world_run :: world where
  "world_run = world0\<lparr>testRuns :=
     [(''r1'', run0), (''r2'', run0\<lparr>run_status := Completed\<rparr>),
      (''r3'', run0\<lparr>botUrl := ''  ''\<rparr>)]\<rparr>"

definition move_text :: "string \<Rightarrow> string" where
  "move_text m = ''{'' @ [CHR 0x22] @ ''move'' @ [CHR 0x22] @ '':'' @ [CHR 0x22] @ m @ [CHR 0x22] @ ''}''"

definition parse0 :: "string \<Rightarrow> json option" where
  "parse0 s =
     (if s = move_text ''up'' then Some (JObject [(''move'', JString ''up'')])
      else if s = move_text ''Up'' then Some (JObject [(''move'', JString ''Up'')])
      else if s = ''null'' then Some JNull
      else None)"

definition stringify0 :: "json \<Rightarrow> string" where
  "stringify0 v =
     (case v of
        JNull \<Rightarrow> ''null''
      | JObject [(k, JString m)] \<Rightarrow> move_text m
      | _ \<Rightarrow> ''{}'')"

definition runtime0 :: "fetch_outcome \<Rightarrow> runtime" where
  "runtime0 outcome =
     \<lparr>JSON_parse = parse0, JSON_stringify = stringify0,
      fetch = (\<lambda>req. if req_url req = ''https://x.com/move'' then outcome
                      else Threw (Some ''fetch failed'')),
      fetchStart = 8000, fetchEnd = 8120, resultNow = 8130\<rparr>"

section \<open>The endpoint, as the specification words it\<close>

text \<open>
  "Trim, reject empty, strip trailing slashes, and append /move unless the URL already ends
  with /move": \<open>None\<close> stands for the rejected empty URL.
\<close>

definition strip_trailing_slashes :: "string \<Rightarrow> string" where
  "strip_trailing_slashes s = rev (dropWhile (\<lambda>c. c = CHR ''/'') (rev s))"

definition spec_endpoint :: "string \<Rightarrow> string option" where
  "spec_endpoint url =
     (let trimmed = trim url
      in if trimmed = [] then None
         else let stripped = strip_trailing_slashes trimmed
              in Some (if suffix ''/move'' stripped then stripped else stripped @ ''/move''))"

section \<open>Properties\<close>

subsection \<open>The store\<close>

lemma db_get_patch:
  "db_get (db_patch i f tbl) j = (if j = i then map_option f (db_get tbl j) else db_get tbl j)"
  by (induction tbl) (auto simp: db_get_def db_patch_def)

lemma tests_patch_test [simp]: "tests (patch_test i f w) = db_patch i f (tests w)"
  by (simp add: patch_test_def)

lemma sessions_patch_test [simp]: "userSessions (patch_test i f w) = userSessions w"
  by (simp add: patch_test_def)

lemma users_patch_test [simp]: "users (patch_test i f w) = users w"
  by (simp add: patch_test_def)

lemmas example_defs = world0_def test0_def owner0_def admin0_def args0_def board0_def snake0_def
  requireUserSession_def requireAdmin_def db_first_def db_get_def db_patch_def patch_test_def
  youExists_def

subsection \<open>Moderation\<close>

lemma resubmitTest_success:
  assumes "resubmitTest now tok i w = (Inr r, w')"
  shows "\<exists>uid adm t. requireUserSession now tok w = Inr (uid, adm) \<and> db_get (tests w) i = Some t
           \<and> ownerId t = Some uid \<and> status t = Some Rejected \<and> permaRejected t \<noteq> Some True
           \<and> w' = patch_test i (\<lambda>d. d\<lparr>status := Some Pending, rejectionReason := None\<rparr>) w
           \<and> r = Some (t\<lparr>status := Some Pending, rejectionReason := None\<rparr>)"
  using assms
  by (auto simp: resubmitTest_def Let_def db_get_patch split: sum.splits option.splits if_splits prod.splits)

lemma perform_keeps_permaRejected:
  assumes "db_get (tests w) i = Some t" and "permaRejected t = Some True"
  shows "\<exists>t'. db_get (tests (snd (perform now c w))) i = Some t' \<and> permaRejected t' = Some True"
  using assms
  by (cases c)
     (auto simp: approveTest_def rejectTest_def permaRejectTest_def makeTestPrivate_def
        resubmitTest_def updateUserTest_def adminUpdateTest_def Let_def db_get_patch
        split: sum.splits option.splits prod.splits)

lemma perform_all_keeps_permaRejected:
  "db_get (tests w) i = Some t \<Longrightarrow> permaRejected t = Some True \<Longrightarrow>
   \<exists>t'. db_get (tests (perform_all cs w)) i = Some t' \<and> permaRejected t' = Some True"
proof (induction cs arbitrary: w t)
  case Nil
  then show ?case by simp
next
  case (Cons a cs)
  obtain now c where a: "a = (now, c)" by (cases a)
  from perform_keeps_permaRejected[OF Cons.prems, of now c]
  obtain t' where "db_get (tests (snd (perform now c w))) i = Some t'" "permaRejected t' = Some True"
    by blast
  from Cons.IH[OF this] show ?case by (simp add: a)
qed

text \<open>
  C5: \<open>resubmitTest\<close> succeeds only when the caller's session resolves to the owner of the
  test, the test's status is "rejected" and \<open>permaRejected\<close> is not true; it then sets the
  status to "pending" and removes \<open>rejectionReason\<close>. For the owner of a rejected test
  with \<open>permaRejected\<close> true it throws "This test has been permanently rejected and cannot
  be resubmitted."; and whoever calls it on a test with \<open>permaRejected\<close> true, it throws and
  leaves the store as it was (the checks of the session, the owner and the status come first
  and throw their own errors).
\<close>

theorem resubmitTest_policy:
  "(resubmitTest now tok i w = (Inr r, w') \<longrightarrow>
      (\<exists>uid adm t. requireUserSession now tok w = Inr (uid, adm) \<and> db_get (tests w) i = Some t
         \<and> ownerId t = Some uid \<and> status t = Some Rejected \<and> permaRejected t \<noteq> Some True
         \<and> r = Some (t\<lparr>status := Some Pending, rejectionReason := None\<rparr>)
         \<and> w' = patch_test i (\<lambda>d. d\<lparr>status := Some Pending, rejectionReason := None\<rparr>) w))
   \<and> (requireUserSession now tok w = Inr (uid, adm) \<and> db_get (tests w) i = Some t
         \<and> ownerId t = Some uid \<and> status t = Some Rejected \<longrightarrow>
       resubmitTest now tok i w =
         (if permaRejected t = Some True
          then (Inl ''This test has been permanently rejected and cannot be resubmitted.'', w)
          else (Inr (Some (t\<lparr>status := Some Pending, rejectionReason := None\<rparr>)),
                patch_test i (\<lambda>d. d\<lparr>status := Some Pending, rejectionReason := None\<rparr>) w)))
   \<and> (db_get (tests w) i = Some t \<and> permaRejected t = Some True \<longrightarrow>
       (\<exists>e. resubmitTest now tok i w = (Inl e, w)))"
proof (intro conjI impI)
  assume "resubmitTest now tok i w = (Inr r, w')"
  from resubmitTest_success[OF this]
  show "\<exists>uid adm t. requireUserSession now tok w = Inr (uid, adm) \<and> db_get (tests w) i = Some t
         \<and> ownerId t = Some uid \<and> status t = Some Rejected \<and> permaRejected t \<noteq> Some True
         \<and> r = Some (t\<lparr>status := Some Pending, rejectionReason := None\<rparr>)
         \<and> w' = patch_test i (\<lambda>d. d\<lparr>status := Some Pending, rejectionReason := None\<rparr>) w"
    by blast
next
  assume "requireUserSession now tok w = Inr (uid, adm) \<and> db_get (tests w) i = Some t
         \<and> ownerId t = Some uid \<and> status t = Some Rejected"
  then show "resubmitTest now tok i w =
         (if permaRejected t = Some True
          then (Inl ''This test has been permanently rejected and cannot be resubmitted.'', w)
          else (Inr (Some (t\<lparr>status := Some Pending, rejectionReason := None\<rparr>)),
                patch_test i (\<lambda>d. d\<lparr>status := Some Pending, rejectionReason := None\<rparr>) w))"
    by (simp add: resubmitTest_def Let_def db_get_patch)
next
  assume "db_get (tests w) i = Some t \<and> permaRejected t = Some True"
  then show "\<exists>e. resubmitTest now tok i w = (Inl e, w)"
    by (simp add: resubmitTest_def split: sum.splits prod.splits)
qed

theorem resubmitTest_policy_witness:
  "requireUserSession 5000 ''tok-a'' world0 = Inr (''u1'', False)
   \<and> db_get (tests world0) ''t1'' = Some test0
   \<and> ownerId test0 = Some ''u1'' \<and> status test0 = Some Rejected \<and> permaRejected test0 \<noteq> Some True
   \<and> resubmitTest 5000 ''tok-a'' ''t1'' world0 =
       (Inr (Some (test0\<lparr>status := Some Pending, rejectionReason := None\<rparr>)),
        patch_test ''t1'' (\<lambda>d. d\<lparr>status := Some Pending, rejectionReason := None\<rparr>) world0)
   \<and> db_get (tests world0) ''t2'' = Some (test0\<lparr>permaRejected := Some True\<rparr>)
   \<and> resubmitTest 5000 ''tok-a'' ''t2'' world0 =
       (Inl ''This test has been permanently rejected and cannot be resubmitted.'', world0)"
proof -
  have s: "requireUserSession 5000 ''tok-a'' world0 = Inr (''u1'', False)"
    by (simp add: example_defs)
  have g1: "db_get (tests world0) ''t1'' = Some test0"
    by (simp add: world0_def db_get_def)
  have g2: "db_get (tests world0) ''t2'' = Some (test0\<lparr>permaRejected := Some True\<rparr>)"
    by (simp add: world0_def db_get_def)
  have o: "ownerId test0 = Some ''u1'' \<and> status test0 = Some Rejected \<and> permaRejected test0 \<noteq> Some True"
    by (simp add: test0_def)
  have ok: "resubmitTest 5000 ''tok-a'' ''t1'' world0 =
       (Inr (Some (test0\<lparr>status := Some Pending, rejectionReason := None\<rparr>)),
        patch_test ''t1'' (\<lambda>d. d\<lparr>status := Some Pending, rejectionReason := None\<rparr>) world0)"
    using resubmitTest_policy [of 5000 "''tok-a''" "''t1''" world0 r w' "''u1''" False test0 for r w']
      s g1 o by presburger
  have o2: "ownerId (test0\<lparr>permaRejected := Some True\<rparr>) = Some ''u1''
      \<and> status (test0\<lparr>permaRejected := Some True\<rparr>) = Some Rejected
      \<and> permaRejected (test0\<lparr>permaRejected := Some True\<rparr>) = Some True"
    by (simp add: test0_def)
  have no: "resubmitTest 5000 ''tok-a'' ''t2'' world0 =
       (Inl ''This test has been permanently rejected and cannot be resubmitted.'', world0)"
    using resubmitTest_policy [of 5000 "''tok-a''" "''t2''" world0 r w' "''u1''" False
        "test0\<lparr>permaRejected := Some True\<rparr>" for r w'] s g2 o2 by presburger
  show ?thesis
    using s g1 g2 o ok no by blast
qed

text \<open>
  C6: once \<open>permaRejected\<close> is true on a test, it stays true through every run of
  \<open>approveTest\<close>, \<open>rejectTest\<close>, \<open>permaRejectTest\<close>, \<open>makeTestPrivate\<close>,
  \<open>resubmitTest\<close>, \<open>updateUserTest\<close> and \<open>adminUpdateTest\<close> calls, with any arguments
  and whether they succeed or throw; and an admin's \<open>approveTest\<close> on such a test still
  sets its status to "approved", the flag staying true.
\<close>

theorem permaRejected_sticky:
  assumes "Option.bind (db_get (tests w) i) permaRejected = Some True"
  shows "Option.bind (db_get (tests (perform_all cs w)) i) permaRejected = Some True
     \<and> (requireAdmin now tok w = Inr uid \<longrightarrow>
          Option.bind (db_get (tests (snd (approveTest now tok i w))) i) status = Some Approved
          \<and> Option.bind (db_get (tests (snd (approveTest now tok i w))) i) permaRejected = Some True)"
proof -
  from assms obtain t where t: "db_get (tests w) i = Some t" "permaRejected t = Some True"
    by (cases "db_get (tests w) i") auto
  from perform_all_keeps_permaRejected[OF t, of cs]
  have 1: "Option.bind (db_get (tests (perform_all cs w)) i) permaRejected = Some True"
    by auto
  have 2: "Option.bind (db_get (tests (snd (approveTest now tok i w))) i) status = Some Approved
          \<and> Option.bind (db_get (tests (snd (approveTest now tok i w))) i) permaRejected = Some True"
    if "requireAdmin now tok w = Inr uid"
    using that t by (simp add: approveTest_def Let_def db_get_patch)
  from 1 2 show ?thesis by blast
qed

theorem permaRejected_sticky_witness:
  "Option.bind (db_get (tests world0) ''t2'') permaRejected = Some True
   \<and> Option.bind (db_get (tests (perform_all calls0 world0)) ''t2'') permaRejected = Some True
   \<and> requireAdmin 5000 ''tok-r'' world0 = Inr ''u2''
   \<and> Option.bind (db_get (tests (snd (approveTest 5000 ''tok-r'' ''t2'' world0))) ''t2'') status = Some Approved
   \<and> Option.bind (db_get (tests (snd (approveTest 5000 ''tok-r'' ''t2'' world0))) ''t2'') permaRejected = Some True"
proof -
  have h: "Option.bind (db_get (tests world0) ''t2'') permaRejected = Some True"
    by (simp add: world0_def db_get_def test0_def)
  have a: "requireAdmin 5000 ''tok-r'' world0 = Inr ''u2''"
    by (simp add: example_defs)
  show ?thesis
    using h a permaRejected_sticky [OF h, of calls0 5000 "''tok-r''" "''u2''"] by blast
qed

lemma updateUserTest_success:
  assumes "updateUserTest now tok i args w = (Inr r, w')"
  shows "\<exists>t. db_get (tests w) i = Some t
           \<and> Option.bind (db_get (tests w') i) status = Some Pending
           \<and> Option.bind (db_get (tests w') i) rejectionReason = rejectionReason t
           \<and> Option.bind (db_get (tests w') i) permaRejected = permaRejected t"
proof (cases "requireUserSession now tok w")
  case (Inl e)
  with assms show ?thesis by (simp add: updateUserTest_def)
next
  case (Inr p)
  obtain uid adm where p: "p = (uid, adm)" by (cases p)
  show ?thesis
  proof (cases "db_get (tests w) i")
    case None
    with assms Inr p show ?thesis by (simp add: updateUserTest_def)
  next
    case (Some t)
    with assms Inr p show ?thesis
      by (auto simp: updateUserTest_def Let_def db_get_patch split: if_splits)
  qed
qed

text \<open>
  C7: a successful owner edit sets the status to "pending", but the patch of
  \<open>updateUserTest\<close> does not list \<open>rejectionReason\<close>: the owner's edit of a rejected test
  with reason "unclear" returns and stores a pending test whose \<open>rejectionReason\<close> is still
  "unclear".
\<close>

theorem updateUserTest_keeps_rejectionReason:
  "Option.bind (db_get (tests world0) ''t1'') status = Some Rejected
   \<and> Option.bind (db_get (tests world0) ''t1'') rejectionReason = Some ''unclear''
   \<and> fst (updateUserTest 5000 ''tok-a'' ''t1'' args0 world0) =
       Inr (Some (test0\<lparr>name := ''corner 2'', description := Some ''edited'', board := board0,
              game := None, turn := 4, youId := ''you'', expectedSafeMoves := [''up''],
              status := Some Pending\<rparr>))
   \<and> Option.bind (db_get (tests (snd (updateUserTest 5000 ''tok-a'' ''t1'' args0 world0))) ''t1'') status
       = Some Pending
   \<and> Option.bind (db_get (tests (snd (updateUserTest 5000 ''tok-a'' ''t1'' args0 world0))) ''t1'')
       rejectionReason = Some ''unclear''"
  by (simp add: updateUserTest_def Let_def example_defs)

subsection \<open>Sessions\<close>

text \<open>
  C9, as stated, fails: with the owner's expired session (expired at 20, read at 5000),
  \<open>requireUserSession\<close> throws the session-expired error and \<open>resubmitTest\<close>, a mutation
  behind it, returns the store unchanged, the expired session still in it.
\<close>

theorem expired_user_session_counterexample:
  "map_option token (db_get (userSessions world0) ''s3'') = Some ''tok-old''
   \<and> map_option expiresAt (db_get (userSessions world0) ''s3'') = Some 20
   \<and> requireUserSession 5000 ''tok-old'' world0 = Inl ''Session expired. Please log in again.''
   \<and> resubmitTest 5000 ''tok-old'' ''t1'' world0 = (Inl ''Session expired. Please log in again.'', world0)"
  by (simp add: resubmitTest_def example_defs)

lemma perform_gate_error:
  "requireUserSession now (token_of c) w = Inl e \<Longrightarrow> perform now c w = (Inl e, w)"
  by (cases c)
     (simp_all add: token_of_def approveTest_def rejectTest_def permaRejectTest_def
        makeTestPrivate_def resubmitTest_def updateUserTest_def adminUpdateTest_def requireAdmin_def)

text \<open>
  C9, amended: for a token whose user session has expired, \<open>requireUserSession\<close> and
  \<open>requireAdmin\<close> throw the session-expired error, \<open>getCurrentUser\<close> returns null, and
  every moderation call made with the token throws that error and leaves the store as it
  was, the expired session still in it. For an expired legacy admin session,
  \<open>requireAdminSession\<close> throws "Admin session expired. Sign in again.".
\<close>

theorem expired_session_access:
  "(db_first (\<lambda>s. token s = tok) (userSessions w) = Some (sid, session) \<and> expiresAt session < now \<longrightarrow>
      requireUserSession now tok w = Inl ''Session expired. Please log in again.''
      \<and> requireAdmin now tok w = Inl ''Session expired. Please log in again.''
      \<and> getCurrentUser now (Some tok) w = None
      \<and> (token_of c = tok \<longrightarrow>
            perform now c w = (Inl ''Session expired. Please log in again.'', w)
            \<and> db_first (\<lambda>s. token s = tok) (userSessions (snd (perform now c w)))
                = Some (sid, session)))
   \<and> (db_first (\<lambda>s. admin_token s = tok) (adminSessions w) = Some (aid, asession)
        \<and> admin_expiresAt asession < now \<longrightarrow>
      fst (requireAdminSession now tok w) = Inl ''Admin session expired. Sign in again.'')"
proof (intro conjI impI)
  assume h: "db_first (\<lambda>s. token s = tok) (userSessions w) = Some (sid, session) \<and> expiresAt session < now"
  then show g: "requireUserSession now tok w = Inl ''Session expired. Please log in again.''"
    by (simp add: requireUserSession_def)
  then show "requireAdmin now tok w = Inl ''Session expired. Please log in again.''"
    by (simp add: requireAdmin_def)
  from h show "getCurrentUser now (Some tok) w = None"
    by (simp add: getCurrentUser_def)
  assume "token_of c = tok"
  with g show p: "perform now c w = (Inl ''Session expired. Please log in again.'', w)"
    by (simp add: perform_gate_error)
  from h show "db_first (\<lambda>s. token s = tok) (userSessions (snd (perform now c w))) = Some (sid, session)"
    by (simp add: p)
next
  assume "db_first (\<lambda>s. admin_token s = tok) (adminSessions w) = Some (aid, asession)
        \<and> admin_expiresAt asession < now"
  then show "fst (requireAdminSession now tok w) = Inl ''Admin session expired. Sign in again.''"
    by (simp add: requireAdminSession_def)
qed

theorem expired_session_access_witness:
  "db_first (\<lambda>s. token s = ''tok-old'') (userSessions world0) =
     Some (''s3'', \<lparr>userId = ''u1'', token = ''tok-old'', session_createdAt = 10, expiresAt = 20\<rparr>)
   \<and> expiresAt \<lparr>userId = ''u1'', token = ''tok-old'', session_createdAt = 10, expiresAt = 20\<rparr> < (5000::int)
   \<and> requireUserSession 5000 ''tok-old'' world0 = Inl ''Session expired. Please log in again.''
   \<and> getCurrentUser 5000 (Some ''tok-old'') world0 = None
   \<and> perform 5000 (ApproveTest ''tok-old'' ''t1'') world0 =
        (Inl ''Session expired. Please log in again.'', world0)
   \<and> db_first (\<lambda>s. admin_token s = ''adm-old'') (adminSessions world0) =
        Some (''a1'', \<lparr>admin_token = ''adm-old'', admin_createdAt = 10, admin_expiresAt = 20\<rparr>)
   \<and> admin_expiresAt \<lparr>admin_token = ''adm-old'', admin_createdAt = 10, admin_expiresAt = 20\<rparr> < (5000::int)
   \<and> fst (requireAdminSession 5000 ''adm-old'' world0) = Inl ''Admin session expired. Sign in again.''"
proof -
  let ?s = "\<lparr>userId = ''u1'', token = ''tok-old'', session_createdAt = 10, expiresAt = 20\<rparr>"
  let ?a = "\<lparr>admin_token = ''adm-old'', admin_createdAt = 10, admin_expiresAt = 20\<rparr>"
  have u: "db_first (\<lambda>s. token s = ''tok-old'') (userSessions world0) = Some (''s3'', ?s)
      \<and> expiresAt ?s < (5000::int)"
    by (simp add: world0_def db_first_def)
  have a: "db_first (\<lambda>s. admin_token s = ''adm-old'') (adminSessions world0) = Some (''a1'', ?a)
      \<and> admin_expiresAt ?a < (5000::int)"
    by (simp add: world0_def db_first_def)
  have t: "token_of (ApproveTest ''tok-old'' ''t1'') = ''tok-old''"
    by (simp add: token_of_def)
  note th = expired_session_access [where tok = "''tok-old''" and w = world0 and sid = "''s3''"
      and session = ?s and now = 5000 and c = "ApproveTest ''tok-old'' ''t1''"]
  note th2 = expired_session_access [where tok = "''adm-old''" and w = world0 and aid = "''a1''"
      and asession = ?a and now = 5000]
  from th u t have 1: "requireUserSession 5000 ''tok-old'' world0 = Inl ''Session expired. Please log in again.''
      \<and> getCurrentUser 5000 (Some ''tok-old'') world0 = None
      \<and> perform 5000 (ApproveTest ''tok-old'' ''t1'') world0 =
        (Inl ''Session expired. Please log in again.'', world0)"
    by blast
  from th2 a have 2: "fst (requireAdminSession 5000 ''adm-old'' world0) =
      Inl ''Admin session expired. Sign in again.''"
    by blast
  from u a 1 2 show ?thesis by blast
qed

subsection \<open>The rate limiter of login\<close>

lemma db_first_patch:
  assumes "\<And>d. P (f d) = P d"
  shows "db_first P (db_patch i f tbl) =
         map_option (\<lambda>(j, d). if j = i then (j, f d) else (j, d)) (db_first P tbl)"
proof (induction tbl)
  case Nil
  show ?case by (simp add: db_first_def db_patch_def)
next
  case (Cons a tbl)
  obtain j d where a: "a = (j, d)" by (cases a)
  from Cons show ?case
    by (simp add: db_first_def db_patch_def a assms)
qed

lemma db_first_insert:
  "db_first P (db_insert i d tbl) =
     (case db_first P tbl of Some x \<Rightarrow> Some x | None \<Rightarrow> if P d then Some (i, d) else None)"
  by (induction tbl) (simp_all add: db_first_def db_insert_def)


lemma recordFailedAttempt_None:
  assumes "limiter_of cid w = None"
  shows "snd (recordFailedAttempt now fresh cid w) =
     w\<lparr>adminRateLimits := db_insert fresh
         \<lparr>clientId = cid, windowStart = now, attempts = 1, blockedUntil = None\<rparr> (adminRateLimits w)\<rparr>"
  unfolding recordFailedAttempt_def Let_def assms
  by (simp add: RATE_LIMIT_WINDOW_MS_def RATE_LIMIT_MAX_ATTEMPTS_def)

lemma recordFailedAttempt_Some:
  assumes "limiter_of cid w = Some (lid, l)"
  shows "snd (recordFailedAttempt now fresh cid w) =
     w\<lparr>adminRateLimits := db_patch lid
        (\<lambda>d. d\<lparr>windowStart := (if now - windowStart l < RATE_LIMIT_WINDOW_MS then windowStart l else now),
                attempts := open_attempts now cid w + 1,
                blockedUntil := (if open_attempts now cid w + 1 \<ge> RATE_LIMIT_MAX_ATTEMPTS
                                 then Some (now + RATE_LIMIT_WINDOW_MS) else None)\<rparr>)
        (adminRateLimits w)\<rparr>"
  unfolding recordFailedAttempt_def Let_def open_attempts_def assms
  by simp


lemma recordFailedAttempt_users:
  "users (snd (recordFailedAttempt now fresh cid w)) = users w"
proof (cases "limiter_of cid w")
  case None
  then show ?thesis by (simp add: recordFailedAttempt_None)
next
  case (Some a)
  obtain lid l where "a = (lid, l)" by (cases a)
  with Some show ?thesis by (simp add: recordFailedAttempt_Some)
qed

lemma recordFailedAttempt_limiter:
  "limiter_of cid (snd (recordFailedAttempt now fresh cid w)) =
     (case limiter_of cid w of
        None \<Rightarrow> Some (fresh, \<lparr>clientId = cid, windowStart = now, attempts = 1, blockedUntil = None\<rparr>)
      | Some (lid, l) \<Rightarrow>
          Some (lid, l\<lparr>windowStart := (if now - windowStart l < RATE_LIMIT_WINDOW_MS then windowStart l else now),
                       attempts := open_attempts now cid w + 1,
                       blockedUntil := (if open_attempts now cid w + 1 \<ge> RATE_LIMIT_MAX_ATTEMPTS
                                        then Some (now + RATE_LIMIT_WINDOW_MS) else None)\<rparr>))"
proof (cases "limiter_of cid w")
  case None
  then have "db_first (\<lambda>l. clientId l = cid) (adminRateLimits w) = None"
    by (simp add: limiter_of_def)
  then have "limiter_of cid (w\<lparr>adminRateLimits := db_insert fresh
         \<lparr>clientId = cid, windowStart = now, attempts = 1, blockedUntil = None\<rparr> (adminRateLimits w)\<rparr>)
       = Some (fresh, \<lparr>clientId = cid, windowStart = now, attempts = 1, blockedUntil = None\<rparr>)"
    by (simp add: limiter_of_def db_first_insert)
  with None show ?thesis by (simp add: recordFailedAttempt_None)
next
  case (Some a)
  obtain lid l where a: "a = (lid, l)" by (cases a)
  with Some have f: "db_first (\<lambda>l. clientId l = cid) (adminRateLimits w) = Some (lid, l)"
    by (simp add: limiter_of_def)
  have "limiter_of cid (w\<lparr>adminRateLimits := db_patch lid g (adminRateLimits w)\<rparr>) = Some (lid, g l)"
    if "\<And>d. clientId (g d) = clientId d" for g
    using that f by (simp add: limiter_of_def db_first_patch)
  with Some a show ?thesis by (simp add: recordFailedAttempt_Some)
qed

lemma login_blocked:
  assumes "limiter_of cid w = Some (lid, l)" "blockedUntil l = Some b" "b > call_now c" "0 \<le> call_now c"
  shows "login cmp cid c w = (Inr (LoginError ''Too many attempts. Try again later.'' (Some b)), w)"
  using assms by (simp add: login_def checkRateLimit_def Let_def)

lemma login_failed:
  assumes "\<not> fst (checkRateLimit (call_now c) cid w)" "bad_credentials cmp c (users w)"
  shows "login cmp cid c w = (Inr (LoginError ''Invalid email or password.'' None),
            snd (recordFailedAttempt (call_now c) (call_fresh c) cid w))"
proof (cases "db_first (\<lambda>u. emailLower u = trim (toLowerCase (call_email c))) (users w)")
  case None
  with assms(1) show ?thesis by (simp add: login_def Let_def)
next
  case (Some a)
  obtain uid u where a: "a = (uid, u)" by (cases a)
  with Some assms(2) obtain h where "passwordHash u = Some h" "\<not> cmp (call_password c) h"
    by (cases "passwordHash u") (simp_all add: bad_credentials_def)
  with Some a assms(1) show ?thesis by (simp add: login_def Let_def)
qed

lemma resetRateLimit_limiter:
  "limiter_of cid (resetRateLimit now cid w) =
     map_option (\<lambda>(lid, l). (lid, l\<lparr>windowStart := now, attempts := 0, blockedUntil := None\<rparr>))
       (limiter_of cid w)"
proof (cases "limiter_of cid w")
  case None
  then show ?thesis by (simp add: resetRateLimit_def)
next
  case (Some a)
  obtain lid l where a: "a = (lid, l)" by (cases a)
  with Some have f: "db_first (\<lambda>l. clientId l = cid) (adminRateLimits w) = Some (lid, l)"
    by (simp add: limiter_of_def)
  have "limiter_of cid (w\<lparr>adminRateLimits := db_patch lid g (adminRateLimits w)\<rparr>) = Some (lid, g l)"
    if "\<And>d. clientId (g d) = clientId d" for g
    using that f by (simp add: limiter_of_def db_first_patch)
  with Some a show ?thesis by (simp add: resetRateLimit_def)
qed

lemma limiter_of_userSessions:
  "limiter_of cid (w\<lparr>userSessions := x\<rparr>) = limiter_of cid w"
  by (simp add: limiter_of_def)

lemma login_succeeded:
  assumes "\<not> fst (checkRateLimit (call_now c) cid w)" "good_credentials cmp c (users w)"
  shows "(\<exists>info. fst (login cmp cid c w) = Inr (LoginOk (call_uuid c) info))
    \<and> limiter_of cid (snd (login cmp cid c w)) =
     map_option (\<lambda>(lid, l). (lid, l\<lparr>windowStart := call_now c, attempts := 0, blockedUntil := None\<rparr>))
       (limiter_of cid w)"
proof (cases "db_first (\<lambda>u. emailLower u = trim (toLowerCase (call_email c))) (users w)")
  case None
  with assms(2) show ?thesis by (simp add: good_credentials_def)
next
  case (Some a)
  obtain uid u where a: "a = (uid, u)" by (cases a)
  with Some assms(2) obtain h where "passwordHash u = Some h" "cmp (call_password c) h"
    by (cases "passwordHash u") (simp_all add: good_credentials_def)
  with Some a assms(1) show ?thesis
    by (simp add: login_def Let_def limiter_of_userSessions resetRateLimit_limiter)
qed

lemma not_blocked_None:
  "limiter_of cid w = Some (lid, l) \<Longrightarrow> blockedUntil l = None \<Longrightarrow> \<not> fst (checkRateLimit now cid w)"
  by (simp add: checkRateLimit_def)

lemma not_blocked_new:
  "limiter_of cid w = None \<Longrightarrow> \<not> fst (checkRateLimit now cid w)"
  by (simp add: checkRateLimit_def)

lemma failed_logins_count:
  assumes "limiter_of cid w = Some (lid, l)" and "blockedUntil l = None"
    and "\<forall>c\<in>set cs. bad_credentials cmp c (users w)
            \<and> call_now c - windowStart l < RATE_LIMIT_WINDOW_MS"
    and "attempts l + int (length cs) < RATE_LIMIT_MAX_ATTEMPTS"
  shows "\<exists>l'. limiter_of cid (logins cmp cid cs w) = Some (lid, l')
            \<and> windowStart l' = windowStart l \<and> blockedUntil l' = None
            \<and> attempts l' = attempts l + int (length cs)
            \<and> clientId l' = clientId l
            \<and> users (logins cmp cid cs w) = users w"
  using assms
proof (induction cs arbitrary: w l)
  case Nil
  then show ?case by simp
next
  case (Cons c cs)
  let ?w1 = "snd (recordFailedAttempt (call_now c) (call_fresh c) cid w)"
  let ?l1 = "l\<lparr>windowStart := windowStart l, attempts := attempts l + 1, blockedUntil := None\<rparr>"
  from Cons.prems have bad: "bad_credentials cmp c (users w)"
    and win: "call_now c - windowStart l < RATE_LIMIT_WINDOW_MS"
    by simp_all
  have step: "login cmp cid c w = (Inr (LoginError ''Invalid email or password.'' None), ?w1)"
    using login_failed[OF not_blocked_None[OF Cons.prems(1,2)] bad] .
  have oa: "open_attempts (call_now c) cid w = attempts l"
    using Cons.prems(1) win by (simp add: open_attempts_def)
  have lim: "limiter_of cid ?w1 = Some (lid, ?l1)"
    using Cons.prems(1,4) win
    by (simp add: recordFailedAttempt_limiter oa)
  have us: "users ?w1 = users w"
    by (rule recordFailedAttempt_users)
  have "\<exists>l'. limiter_of cid (logins cmp cid cs ?w1) = Some (lid, l')
            \<and> windowStart l' = windowStart ?l1 \<and> blockedUntil l' = None
            \<and> attempts l' = attempts ?l1 + int (length cs)
            \<and> clientId l' = clientId ?l1
            \<and> users (logins cmp cid cs ?w1) = users ?w1"
  proof (rule Cons.IH[OF lim])
    show "blockedUntil ?l1 = None" by simp
    show "\<forall>c\<in>set cs. bad_credentials cmp c (users ?w1)
            \<and> call_now c - windowStart ?l1 < RATE_LIMIT_WINDOW_MS"
      using Cons.prems(3) us by simp
    show "attempts ?l1 + int (length cs) < RATE_LIMIT_MAX_ATTEMPTS"
      using Cons.prems(4) by simp
  qed
  then obtain l' where "limiter_of cid (logins cmp cid cs ?w1) = Some (lid, l')"
    "windowStart l' = windowStart l" "blockedUntil l' = None"
    "attempts l' = attempts l + int (length (c # cs))" "clientId l' = clientId l"
    "users (logins cmp cid cs ?w1) = users w"
    using us by auto
  then show ?case
    by (simp only: logins.simps step snd_conv) blast
qed

lemma fifth_failure_blocks:
  assumes "\<not> fst (checkRateLimit (call_now c) cid w)" and "bad_credentials cmp c (users w)"
    and "RATE_LIMIT_MAX_ATTEMPTS \<le> open_attempts (call_now c) cid w + 1"
  shows "\<exists>lid l. limiter_of cid (snd (login cmp cid c w)) = Some (lid, l)
           \<and> attempts l = open_attempts (call_now c) cid w + 1
           \<and> blockedUntil l = Some (call_now c + RATE_LIMIT_WINDOW_MS)"
proof (cases "limiter_of cid w")
  case None
  with assms(3) show ?thesis
    by (simp add: open_attempts_def RATE_LIMIT_MAX_ATTEMPTS_def)
next
  case (Some a)
  obtain lid l where "a = (lid, l)" by (cases a)
  with Some assms(3) show ?thesis
    by (simp add: login_failed[OF assms(1,2)] recordFailedAttempt_limiter)
qed

lemma five_failures:
  assumes new: "limiter_of cid w = None"
    and bad: "\<forall>c\<in>set [c1, c2, c3, c4, c5]. bad_credentials cmp c (users w)
            \<and> call_now c - call_now c1 < RATE_LIMIT_WINDOW_MS"
  shows "limiter_of cid (logins cmp cid [c1, c2, c3, c4, c5] w) =
           Some (call_fresh c1, \<lparr>clientId = cid, windowStart = call_now c1, attempts = 5,
                   blockedUntil = Some (call_now c5 + RATE_LIMIT_WINDOW_MS)\<rparr>)"
proof -
  let ?w1 = "snd (recordFailedAttempt (call_now c1) (call_fresh c1) cid w)"
  let ?l1 = "\<lparr>clientId = cid, windowStart = call_now c1, attempts = 1, blockedUntil = None\<rparr>"
  have s1: "login cmp cid c1 w = (Inr (LoginError ''Invalid email or password.'' None), ?w1)"
    using login_failed[OF not_blocked_new[OF new]] bad by simp
  have l1: "limiter_of cid ?w1 = Some (call_fresh c1, ?l1)"
    using new by (simp add: recordFailedAttempt_limiter)
  have u1: "users ?w1 = users w" by (rule recordFailedAttempt_users)
  define w4 where "w4 = logins cmp cid [c2, c3, c4] ?w1"
  have "\<exists>l'. limiter_of cid (logins cmp cid [c2, c3, c4] ?w1) = Some (call_fresh c1, l')
            \<and> windowStart l' = windowStart ?l1 \<and> blockedUntil l' = None
            \<and> attempts l' = attempts ?l1 + int (length [c2, c3, c4])
            \<and> clientId l' = clientId ?l1
            \<and> users (logins cmp cid [c2, c3, c4] ?w1) = users ?w1"
  proof (rule failed_logins_count[OF l1])
    show "blockedUntil ?l1 = None" by simp
    show "\<forall>c\<in>set [c2, c3, c4]. bad_credentials cmp c (users ?w1)
            \<and> call_now c - windowStart ?l1 < RATE_LIMIT_WINDOW_MS"
      using bad u1 by simp
    show "attempts ?l1 + int (length [c2, c3, c4]) < RATE_LIMIT_MAX_ATTEMPTS"
      by (simp add: RATE_LIMIT_MAX_ATTEMPTS_def)
  qed
  then obtain l4 where l4: "limiter_of cid w4 = Some (call_fresh c1, l4)"
    "windowStart l4 = call_now c1" "blockedUntil l4 = None" "attempts l4 = 4" "clientId l4 = cid"
    and u4: "users w4 = users w"
    unfolding w4_def[symmetric] using u1 by auto
  let ?w5 = "snd (recordFailedAttempt (call_now c5) (call_fresh c5) cid w4)"
  have b5: "bad_credentials cmp c5 (users w4)" "call_now c5 - call_now c1 < RATE_LIMIT_WINDOW_MS"
    using bad u4 by simp_all
  have s5: "login cmp cid c5 w4 = (Inr (LoginError ''Invalid email or password.'' None), ?w5)"
    using login_failed[OF not_blocked_None[OF l4(1,3)] b5(1)] .
  have oa: "open_attempts (call_now c5) cid w4 = 4"
    using l4 b5(2) by (simp add: open_attempts_def)
  have "limiter_of cid ?w5 = Some (call_fresh c1, l4\<lparr>windowStart := call_now c1, attempts := 5,
            blockedUntil := Some (call_now c5 + RATE_LIMIT_WINDOW_MS)\<rparr>)"
    using l4 b5(2) by (simp add: recordFailedAttempt_limiter oa RATE_LIMIT_MAX_ATTEMPTS_def)
  moreover have "l4\<lparr>windowStart := call_now c1, attempts := 5,
            blockedUntil := Some (call_now c5 + RATE_LIMIT_WINDOW_MS)\<rparr> =
         \<lparr>clientId = cid, windowStart = call_now c1, attempts = 5,
                   blockedUntil = Some (call_now c5 + RATE_LIMIT_WINDOW_MS)\<rparr>"
    using l4(5) by (cases l4) simp
  moreover have "logins cmp cid [c1, c2, c3, c4, c5] w = snd (login cmp cid c5 w4)"
    by (simp add: s1 w4_def)
  ultimately show ?thesis by (simp add: s5)
qed

text \<open>
  C8: for a client without a limiter record, five failed logins whose times lie within
  the window of the first leave the record with five attempts and
  \<open>blockedUntil = now + RATE_LIMIT_WINDOW_MS\<close>, \<open>now\<close> being the time of the fifth; in any
  store, the failed login that brings the attempts of the open window to five sets
  \<open>blockedUntil\<close> so. While \<open>blockedUntil\<close> is in the future, a login, whatever its
  credentials, returns "Too many attempts. Try again later." with \<open>retryAt\<close> and leaves the
  store as it was. A login with correct credentials that is not blocked sets the attempts
  of the client's record to 0 and removes \<open>blockedUntil\<close>.
\<close>

theorem login_rate_limit:
  "(limiter_of cid w = None
      \<and> (\<forall>c\<in>set [c1, c2, c3, c4, c5]. bad_credentials cmp c (users w)
             \<and> call_now c - call_now c1 < RATE_LIMIT_WINDOW_MS) \<longrightarrow>
    limiter_of cid (logins cmp cid [c1, c2, c3, c4, c5] w) =
      Some (call_fresh c1, \<lparr>clientId = cid, windowStart = call_now c1, attempts = 5,
              blockedUntil = Some (call_now c5 + RATE_LIMIT_WINDOW_MS)\<rparr>))
   \<and> (\<not> fst (checkRateLimit (call_now c) cid w) \<and> bad_credentials cmp c (users w)
        \<and> RATE_LIMIT_MAX_ATTEMPTS \<le> open_attempts (call_now c) cid w + 1 \<longrightarrow>
      (\<exists>lid l. limiter_of cid (snd (login cmp cid c w)) = Some (lid, l)
         \<and> attempts l = open_attempts (call_now c) cid w + 1
         \<and> blockedUntil l = Some (call_now c + RATE_LIMIT_WINDOW_MS)))
   \<and> (limiter_of cid w = Some (lid, l) \<and> blockedUntil l = Some b \<and> call_now c < b
        \<and> 0 \<le> call_now c \<longrightarrow>
      login cmp cid c w = (Inr (LoginError ''Too many attempts. Try again later.'' (Some b)), w))
   \<and> (limiter_of cid w = Some (lid, l) \<and> \<not> fst (checkRateLimit (call_now c) cid w)
        \<and> good_credentials cmp c (users w) \<longrightarrow>
      (\<exists>info. fst (login cmp cid c w) = Inr (LoginOk (call_uuid c) info))
      \<and> limiter_of cid (snd (login cmp cid c w)) =
          Some (lid, l\<lparr>windowStart := call_now c, attempts := 0, blockedUntil := None\<rparr>))"
proof (intro conjI impI)
  assume "limiter_of cid w = None
      \<and> (\<forall>c\<in>set [c1, c2, c3, c4, c5]. bad_credentials cmp c (users w)
             \<and> call_now c - call_now c1 < RATE_LIMIT_WINDOW_MS)"
  then show "limiter_of cid (logins cmp cid [c1, c2, c3, c4, c5] w) =
      Some (call_fresh c1, \<lparr>clientId = cid, windowStart = call_now c1, attempts = 5,
              blockedUntil = Some (call_now c5 + RATE_LIMIT_WINDOW_MS)\<rparr>)"
    using five_failures by blast
next
  assume "\<not> fst (checkRateLimit (call_now c) cid w) \<and> bad_credentials cmp c (users w)
        \<and> RATE_LIMIT_MAX_ATTEMPTS \<le> open_attempts (call_now c) cid w + 1"
  then show "\<exists>lid l. limiter_of cid (snd (login cmp cid c w)) = Some (lid, l)
         \<and> attempts l = open_attempts (call_now c) cid w + 1
         \<and> blockedUntil l = Some (call_now c + RATE_LIMIT_WINDOW_MS)"
    using fifth_failure_blocks by blast
next
  assume "limiter_of cid w = Some (lid, l) \<and> blockedUntil l = Some b \<and> call_now c < b
        \<and> 0 \<le> call_now c"
  then show "login cmp cid c w = (Inr (LoginError ''Too many attempts. Try again later.'' (Some b)), w)"
    using login_blocked by blast
next
  assume a: "limiter_of cid w = Some (lid, l) \<and> \<not> fst (checkRateLimit (call_now c) cid w)
        \<and> good_credentials cmp c (users w)"
  with login_succeeded[of c cid w cmp]
  show "\<exists>info. fst (login cmp cid c w) = Inr (LoginOk (call_uuid c) info)"
    by blast
  from a login_succeeded[of c cid w cmp]
  show "limiter_of cid (snd (login cmp cid c w)) =
          Some (lid, l\<lparr>windowStart := call_now c, attempts := 0, blockedUntil := None\<rparr>)"
    by simp
qed

lemma find_owner0:
  "db_first (\<lambda>u. emailLower u = trim (toLowerCase '' A@X.com '')) (users world0) = Some (''u1'', owner0)"
proof -
  have "trim (toLowerCase '' A@X.com '') = ''a@x.com''" by code_simp
  then show ?thesis by (simp add: db_first_def world0_def owner0_def)
qed

lemma wrong_call_bad: "bad_credentials compare0 (wrong_call t) (users world0)"
  using find_owner0 by (simp add: bad_credentials_def wrong_call_def owner0_def compare0_def)

lemma right_call_good: "good_credentials compare0 (right_call t) (users world0)"
  using find_owner0 by (simp add: good_credentials_def right_call_def owner0_def compare0_def)

theorem login_rate_limit_witness:
  "limiter_of ''client'' world0 = None
   \<and> limiter_of ''client''
        (logins compare0 ''client''
           [wrong_call 1000, wrong_call 2000, wrong_call 3000, wrong_call 4000, wrong_call 5000] world0) =
      Some (''l1'', \<lparr>clientId = ''client'', windowStart = 1000, attempts = 5,
              blockedUntil = Some 305000\<rparr>)
   \<and> (\<exists>l. limiter_of ''client'' (snd (login compare0 ''client'' (wrong_call 2000) world_four))
            = Some (''l1'', l) \<and> attempts l = 5 \<and> blockedUntil l = Some 302000)
   \<and> good_credentials compare0 (right_call 6000) (users world_blocked)
   \<and> login compare0 ''client'' (right_call 6000) world_blocked =
        (Inr (LoginError ''Too many attempts. Try again later.'' (Some 400000)), world_blocked)
   \<and> limiter_of ''client'' (snd (login compare0 ''client'' (right_call 2000) world_four)) =
        Some (''l1'', \<lparr>clientId = ''client'', windowStart = 2000, attempts = 0, blockedUntil = None\<rparr>)"
proof -
  let ?cs = "[wrong_call 1000, wrong_call 2000, wrong_call 3000, wrong_call 4000, wrong_call 5000]"
  let ?l4 = "\<lparr>clientId = ''client'', windowStart = 1000, attempts = 4, blockedUntil = None\<rparr>"
  let ?lb = "\<lparr>clientId = ''client'', windowStart = 1000, attempts = 5, blockedUntil = Some 400000\<rparr>"
  have n: "limiter_of ''client'' world0 = None"
    by (simp add: limiter_of_def db_first_def world0_def)
  have b: "\<forall>c\<in>set ?cs. bad_credentials compare0 c (users world0)
             \<and> call_now c - call_now (wrong_call 1000) < RATE_LIMIT_WINDOW_MS"
    by (simp add: wrong_call_bad) (simp add: wrong_call_def RATE_LIMIT_WINDOW_MS_def)
  have 1: "limiter_of ''client'' (logins compare0 ''client'' ?cs world0) =
      Some (''l1'', \<lparr>clientId = ''client'', windowStart = 1000, attempts = 5,
              blockedUntil = Some 305000\<rparr>)"
    using login_rate_limit [where cid = "''client''" and w = world0 and cmp = compare0
        and ?c1.0 = "wrong_call 1000" and ?c2.0 = "wrong_call 2000" and ?c3.0 = "wrong_call 3000"
        and ?c4.0 = "wrong_call 4000" and ?c5.0 = "wrong_call 5000", THEN conjunct1] n b
    by (simp add: wrong_call_def RATE_LIMIT_WINDOW_MS_def)
  have f: "limiter_of ''client'' world_four = Some (''l1'', ?l4)"
    by (simp add: limiter_of_def db_first_def world_four_def)
  have fb: "limiter_of ''client'' world_blocked = Some (''l1'', ?lb)"
    by (simp add: limiter_of_def db_first_def world_blocked_def)
  have u4: "users world_four = users world0" "users world_blocked = users world0"
    by (simp_all add: world_four_def world_blocked_def)
  have nb: "\<not> fst (checkRateLimit t ''client'' world_four)" for t
    using f by (simp add: checkRateLimit_def)
  have oa: "open_attempts 2000 ''client'' world_four = 4"
    using f by (simp add: open_attempts_def RATE_LIMIT_WINDOW_MS_def)
  have 2: "\<exists>l. limiter_of ''client'' (snd (login compare0 ''client'' (wrong_call 2000) world_four))
            = Some (''l1'', l) \<and> attempts l = 5 \<and> blockedUntil l = Some 302000"
  proof -
    have "\<exists>lid l. limiter_of ''client'' (snd (login compare0 ''client'' (wrong_call 2000) world_four))
            = Some (lid, l) \<and> attempts l = open_attempts (call_now (wrong_call 2000)) ''client'' world_four + 1
             \<and> blockedUntil l = Some (call_now (wrong_call 2000) + RATE_LIMIT_WINDOW_MS)"
      using login_rate_limit [where cid = "''client''" and w = world_four and cmp = compare0
        and c = "wrong_call 2000", THEN conjunct2, THEN conjunct1] nb oa wrong_call_bad u4
      by (simp add: wrong_call_def RATE_LIMIT_MAX_ATTEMPTS_def)
    then obtain lid l where l: "limiter_of ''client'' (snd (login compare0 ''client'' (wrong_call 2000) world_four))
            = Some (lid, l)" "attempts l = 5" "blockedUntil l = Some 302000"
      using oa by (auto simp: wrong_call_def RATE_LIMIT_WINDOW_MS_def)
    have "login compare0 ''client'' (wrong_call 2000) world_four =
        (Inr (LoginError ''Invalid email or password.'' None),
            snd (recordFailedAttempt (call_now (wrong_call 2000)) (call_fresh (wrong_call 2000)) ''client'' world_four))"
      using login_failed[OF nb, of compare0 "wrong_call 2000"] wrong_call_bad u4 by simp
    with l(1) f have "lid = ''l1''"
      by (simp add: recordFailedAttempt_limiter)
    with l show ?thesis by blast
  qed
  have g: "good_credentials compare0 (right_call t) (users world_blocked)" for t
    using right_call_good u4 by simp
  have 3: "login compare0 ''client'' (right_call 6000) world_blocked =
        (Inr (LoginError ''Too many attempts. Try again later.'' (Some 400000)), world_blocked)"
    using login_rate_limit [where cid = "''client''" and w = world_blocked and cmp = compare0
        and c = "right_call 6000" and lid = "''l1''" and l = ?lb and b = 400000,
        THEN conjunct2, THEN conjunct2, THEN conjunct1] fb
    by (simp add: right_call_def)
  have 4: "limiter_of ''client'' (snd (login compare0 ''client'' (right_call 2000) world_four)) =
        Some (''l1'', \<lparr>clientId = ''client'', windowStart = 2000, attempts = 0, blockedUntil = None\<rparr>)"
    using login_rate_limit [where cid = "''client''" and w = world_four and cmp = compare0
        and c = "right_call 2000" and lid = "''l1''" and l = ?l4,
        THEN conjunct2, THEN conjunct2, THEN conjunct2] f nb right_call_good u4
    by (simp add: right_call_def)
  from n 1 2 g 3 4 show ?thesis by blast
qed

subsection \<open>Running a test\<close>

lemma testRuns_updateTestRunResult:
  "db_get (testRuns (updateTestRunResult now runId args w)) j =
     (if j = runId
      then map_option (\<lambda>d. d\<lparr>run_status := ra_status args, move := ra_move args,
              shout := ra_shout args, passed := ra_passed args, error := ra_error args,
              httpStatus := ra_httpStatus args, rawResponse := ra_rawResponse args,
              responseTimeMs := ra_responseTimeMs args, completedAt := Some now\<rparr>)
             (db_get (testRuns w) j)
      else db_get (testRuns w) j)"
  by (simp add: updateTestRunResult_def db_get_patch)

lemma outbound_updateTestRunResult:
  "outbound (updateTestRunResult now runId args w) = outbound w"
  by (simp add: updateTestRunResult_def)

lemma replace_all_slashes:
  "list_all (\<lambda>d. d = CHR ''/'') s \<Longrightarrow> replace_trailing_slashes s = []"
  by (cases s) simp_all

lemma replace_is_strip: "replace_trailing_slashes s = strip_trailing_slashes s"
proof (induction s)
  case Nil
  show ?case by (simp add: strip_trailing_slashes_def)
next
  case (Cons c cs)
  show ?case
  proof (cases "list_all (\<lambda>d. d = CHR ''/'') cs")
    case True
    then have "dropWhile (\<lambda>c. c = CHR ''/'') (rev cs) = []"
      by (simp add: list_all_iff)
    with True show ?thesis
      by (simp add: strip_trailing_slashes_def dropWhile_append replace_all_slashes list_all_iff)
  next
    case False
    then have "dropWhile (\<lambda>c. c = CHR ''/'') (rev cs) \<noteq> []"
      by (simp add: list_all_iff)
    then have "dropWhile (\<lambda>c. c = CHR ''/'') (rev cs @ [c]) = dropWhile (\<lambda>c. c = CHR ''/'') (rev cs) @ [c]"
      by (simp add: dropWhile_append list_all_iff)
    with False Cons show ?thesis
      by (simp add: strip_trailing_slashes_def)
  qed
qed

lemma endsWith_suffix: "endsWith s suf = suffix suf s"
proof
  assume "endsWith s suf"
  then have "s = take (length s - length suf) s @ suf"
    by (metis append_take_drop_id endsWith_def)
  then show "suffix suf s" by (metis suffixI)
next
  assume "suffix suf s"
  then obtain p where "s = p @ suf" by (auto simp: suffix_def)
  then show "endsWith s suf" by (simp add: endsWith_def)
qed

lemma spec_endpoint_refines:
  "spec_endpoint url = (if trim url = [] then None else Some (endpoint_of (trim url)))"
  by (simp add: spec_endpoint_def endpoint_of_def Let_def replace_is_strip endsWith_suffix)

lemma spec_endpoint_examples:
  "spec_endpoint ''https://x.com'' = Some ''https://x.com/move''"
  "spec_endpoint ''https://x.com/move/'' = Some ''https://x.com/move''"
  by code_simp+

lemma executeTestRun_non_json:
  assumes "db_get (testRuns w) runId = Some run" and "run_status run = Running"
    and "db_get (tests w) (testId run) = Some t"
    and "find (\<lambda>snakeItem. snake_id snakeItem = youId t) (snakes (board t)) = Some you"
    and "trim (botUrl run) \<noteq> []"
    and "fetch rt (bot_request (trim (botUrl run)) (testId run) t you) = Responded st txt"
    and "txt \<noteq> []" and "JSON_parse rt txt = None"
  shows "executeTestRun rt runId w =
          (RunError (''Non-JSON response ('' @ decimal st @ '').''),
           updateTestRunResult (resultNow rt) runId
             \<lparr>ra_status = Failed, ra_move = None, ra_shout = None, ra_passed = None,
              ra_error = Some (''Non-JSON response ('' @ decimal st @ '').''),
              ra_httpStatus = Some st, ra_rawResponse = Some (slice_1000 txt),
              ra_responseTimeMs = Some (fetchEnd rt - fetchStart rt)\<rparr>
             (w\<lparr>outbound := outbound w @ [bot_request (trim (botUrl run)) (testId run) t you]\<rparr>))"
  using assms by (simp add: executeTestRun_def Let_def)

lemma executeTestRun_completed:
  assumes "db_get (testRuns w) runId = Some run" and "run_status run = Running"
    and "db_get (tests w) (testId run) = Some t"
    and "find (\<lambda>snakeItem. snake_id snakeItem = youId t) (snakes (board t)) = Some you"
    and "trim (botUrl run) \<noteq> []"
    and "fetch rt (bot_request (trim (botUrl run)) (testId run) t you) = Responded st txt"
    and "response_ok st"
    and "(if txt \<noteq> [] then JSON_parse rt txt else Some JNull) = Some data"
  shows "executeTestRun rt runId w =
          (RunOk (string_or_null (property data ''move'')) (string_or_null (property data ''shout''))
             (case string_or_null (property data ''move'') of
                None \<Rightarrow> False | Some m \<Rightarrow> m \<in> set (expectedSafeMoves t))
             (fetchEnd rt - fetchStart rt),
           updateTestRunResult (resultNow rt) runId
             \<lparr>ra_status = Completed, ra_move = string_or_null (property data ''move''),
              ra_shout = string_or_null (property data ''shout''),
              ra_passed = Some (case string_or_null (property data ''move'') of
                None \<Rightarrow> False | Some m \<Rightarrow> m \<in> set (expectedSafeMoves t)),
              ra_error = None,
              ra_httpStatus = Some st,
              ra_rawResponse = Some (slice_1000 (JSON_stringify rt data)),
              ra_responseTimeMs = Some (fetchEnd rt - fetchStart rt)\<rparr>
             (w\<lparr>outbound := outbound w @ [bot_request (trim (botUrl run)) (testId run) t you]\<rparr>))"
  using assms by (simp add: executeTestRun_def Let_def)

lemma executeTestRun_other_runs:
  assumes "j \<noteq> runId"
  shows "db_get (testRuns (snd (executeTestRun rt runId w))) j = db_get (testRuns w) j"
proof (cases "db_get (testRuns w) runId")
  case None
  then show ?thesis by (simp add: executeTestRun_def)
next
  case (Some run)
  note run = this
  show ?thesis
  proof (cases "run_status run = Running")
    case False
    with run show ?thesis by (simp add: executeTestRun_def)
  next
    case True
    note running = this
    show ?thesis
    proof (cases "db_get (tests w) (testId run)")
      case None
      with run running assms show ?thesis
        by (simp add: executeTestRun_def testRuns_updateTestRunResult)
    next
      case (Some t)
      note t = this
      show ?thesis
      proof (cases "find (\<lambda>snakeItem. snake_id snakeItem = youId t) (snakes (board t))")
        case None
        with run running t assms show ?thesis
          by (simp add: executeTestRun_def testRuns_updateTestRunResult)
      next
        case (Some you)
        note you = this
        show ?thesis
        proof (cases "trim (botUrl run) = []")
          case True
          with run running t you assms show ?thesis
            by (simp add: executeTestRun_def testRuns_updateTestRunResult)
        next
          case False
          note url = this
          show ?thesis
          proof (cases "fetch rt (bot_request (trim (botUrl run)) (testId run) t you)")
            case (Threw msg)
            with run running t you url assms show ?thesis
              by (simp add: executeTestRun_def Let_def testRuns_updateTestRunResult)
          next
            case (Responded st rtext)
            note resp = this
            define parsed where "parsed = (if rtext \<noteq> [] then JSON_parse rt rtext else Some JNull)"
            show ?thesis
            proof (cases parsed)
              case None
              then have "rtext \<noteq> []" "JSON_parse rt rtext = None"
                by (simp_all add: parsed_def split: if_splits)
              from executeTestRun_non_json[OF run running t you url resp this] assms
              show ?thesis by (simp add: testRuns_updateTestRunResult)
            next
              case (Some data)
              then have p: "(if rtext \<noteq> [] then JSON_parse rt rtext else Some JNull) = Some data"
                by (simp add: parsed_def)
              show ?thesis
              proof (cases "response_ok st")
                case True
                from executeTestRun_completed[OF run running t you url resp True p] assms
                show ?thesis by (simp add: testRuns_updateTestRunResult)
              next
                case False
                with run running t you url resp p assms show ?thesis
                  by (simp add: executeTestRun_def Let_def testRuns_updateTestRunResult)
              qed
            qed
          qed
        qed
      qed
    qed
  qed
qed

lemma executeTestRun_outbound:
  assumes run: "db_get (testRuns w) runId = Some run" and running: "run_status run = Running"
    and t: "db_get (tests w) (testId run) = Some t"
    and you: "find (\<lambda>snakeItem. snake_id snakeItem = youId t) (snakes (board t)) = Some you"
    and url: "trim (botUrl run) \<noteq> []"
  shows "outbound (snd (executeTestRun rt runId w)) =
           outbound w @ [bot_request (trim (botUrl run)) (testId run) t you]"
proof (cases "fetch rt (bot_request (trim (botUrl run)) (testId run) t you)")
  case (Threw msg)
  with run running t you url show ?thesis
    by (simp add: executeTestRun_def Let_def outbound_updateTestRunResult)
next
  case (Responded st rtext)
  note resp = this
  define parsed where "parsed = (if rtext \<noteq> [] then JSON_parse rt rtext else Some JNull)"
  show ?thesis
  proof (cases parsed)
    case None
    then have "rtext \<noteq> []" "JSON_parse rt rtext = None"
      by (simp_all add: parsed_def split: if_splits)
    from executeTestRun_non_json[OF run running t you url resp this]
    show ?thesis by (simp add: outbound_updateTestRunResult)
  next
    case (Some data)
    then have p: "(if rtext \<noteq> [] then JSON_parse rt rtext else Some JNull) = Some data"
      by (simp add: parsed_def)
    show ?thesis
    proof (cases "response_ok st")
      case True
      from executeTestRun_completed[OF run running t you url resp True p]
      show ?thesis by (simp add: outbound_updateTestRunResult)
    next
      case False
      with run running t you url resp p show ?thesis
        by (simp add: executeTestRun_def Let_def outbound_updateTestRunResult)
    qed
  qed
qed

lemma move_string:
  "string_or_null (property data ''move'') = Some m \<longleftrightarrow> property data ''move'' = Some (JString m)"
  by (cases "(property data ''move'')" rule: string_or_null.cases) simp_all

lemma move_null:
  "string_or_null (property data ''move'') = None \<longleftrightarrow> \<not> (\<exists>m. property data ''move'' = Some (JString m))"
  by (cases "(property data ''move'')" rule: string_or_null.cases) simp_all

lemma move_passes:
  "(case string_or_null (property data ''move'') of None \<Rightarrow> False | Some m \<Rightarrow> m \<in> set xs)
   \<longleftrightarrow> (\<exists>m. property data ''move'' = Some (JString m) \<and> m \<in> set xs)"
  by (cases "(property data ''move'')" rule: string_or_null.cases) simp_all

lemma run0_ready:
  "db_get (testRuns world_run) ''r1'' = Some run0"
  "run_status run0 = Running"
  "db_get (tests world_run) (testId run0) = Some test0"
  "find (\<lambda>snakeItem. snake_id snakeItem = youId test0) (snakes (board test0)) = Some snake0"
  by (simp_all add: world_run_def world0_def run0_def test0_def board0_def snake0_def db_get_def)

lemma run0_url: "trim (botUrl run0) = ''https://x.com/move/''"
proof -
  have "trim '' https://x.com/move/ '' = ''https://x.com/move/''" by code_simp
  then show ?thesis by (simp add: run0_def)
qed

lemma run0_endpoint: "endpoint_of ''https://x.com/move/'' = ''https://x.com/move''"
  by code_simp

lemma run0_fetch:
  "fetch (runtime0 outcome) (bot_request (trim (botUrl run0)) (testId run0) test0 snake0) = outcome"
  by (simp add: run0_url run0_endpoint runtime0_def bot_request_def)

lemma run0_url_nonempty: "trim (botUrl run0) \<noteq> []"
  by (simp add: run0_url)

lemma run3_ready:
  "db_get (testRuns world_run) ''r3'' = Some (run0\<lparr>botUrl := ''  ''\<rparr>)"
  "run_status (run0\<lparr>botUrl := ''  ''\<rparr>) = Running"
  "db_get (tests world_run) (testId (run0\<lparr>botUrl := ''  ''\<rparr>)) = Some test0"
  by (simp_all add: world_run_def world0_def run0_def db_get_def)

text \<open>
  C1: when the run is executed (it is running, its test and the "you" snake exist, the
  URL is not blank) and the bot answers with a 2xx status and a body that parses as JSON,
  the run is recorded completed, its \<open>move\<close> is the \<open>move\<close> property of the parsed value
  when that is a string and absent otherwise, and \<open>passed\<close> is recorded true exactly when
  the property is a string that is an element of \<open>expectedSafeMoves\<close>, compared as it is.
\<close>

theorem passed_iff_expected_move:
  assumes "db_get (testRuns w) runId = Some run" and "run_status run = Running"
    and "db_get (tests w) (testId run) = Some t"
    and "find (\<lambda>snakeItem. snake_id snakeItem = youId t) (snakes (board t)) = Some you"
    and "trim (botUrl run) \<noteq> []"
    and "fetch rt (bot_request (trim (botUrl run)) (testId run) t you) = Responded st txt"
    and "response_ok st"
    and "txt \<noteq> []" and "JSON_parse rt txt = Some data"
  shows "\<exists>run' b. db_get (testRuns (snd (executeTestRun rt runId w))) runId = Some run'
           \<and> run_status run' = Completed
           \<and> passed run' = Some b
           \<and> (b \<longleftrightarrow> (\<exists>m. property data ''move'' = Some (JString m) \<and> m \<in> set (expectedSafeMoves t)))
           \<and> (move run' = None \<longleftrightarrow> \<not> (\<exists>m. property data ''move'' = Some (JString m)))
           \<and> (\<forall>m. move run' = Some m \<longleftrightarrow> property data ''move'' = Some (JString m))
           \<and> fst (executeTestRun rt runId w) =
                RunOk (move run') (shout run') b (fetchEnd rt - fetchStart rt)"
proof -
  let ?mv = "string_or_null (property data ''move'')"
  let ?sh = "string_or_null (property data ''shout'')"
  let ?b = "case ?mv of None \<Rightarrow> False | Some m \<Rightarrow> m \<in> set (expectedSafeMoves t)"
  have p: "(if txt \<noteq> [] then JSON_parse rt txt else Some JNull) = Some data"
    using assms(8,9) by simp
  note e = executeTestRun_completed[OF assms(1-7) p]
  let ?run' = "run\<lparr>run_status := Completed, move := ?mv, shout := ?sh, passed := Some ?b,
              error := None, httpStatus := Some st,
              rawResponse := Some (slice_1000 (JSON_stringify rt data)),
              responseTimeMs := Some (fetchEnd rt - fetchStart rt),
              completedAt := Some (resultNow rt)\<rparr>"
  have d: "db_get (testRuns (snd (executeTestRun rt runId w))) runId = Some ?run'"
    unfolding e snd_conv testRuns_updateTestRunResult using assms(1) by simp
  show ?thesis
  proof (intro exI conjI)
    show "db_get (testRuns (snd (executeTestRun rt runId w))) runId = Some ?run'"
      by (rule d)
    show "run_status ?run' = Completed" by simp
    show "passed ?run' = Some ?b" by simp
    show "?b \<longleftrightarrow> (\<exists>m. property data ''move'' = Some (JString m) \<and> m \<in> set (expectedSafeMoves t))"
      by (rule move_passes)
    show "move ?run' = None \<longleftrightarrow> \<not> (\<exists>m. property data ''move'' = Some (JString m))"
      by (simp add: move_null)
    show "\<forall>m. move ?run' = Some m \<longleftrightarrow> property data ''move'' = Some (JString m)"
      by (simp add: move_string)
    show "fst (executeTestRun rt runId w) =
                RunOk (move ?run') (shout ?run') ?b (fetchEnd rt - fetchStart rt)"
      unfolding e by simp
  qed
qed

theorem passed_iff_expected_move_witness:
  "db_get (testRuns world_run) ''r1'' = Some run0 \<and> run_status run0 = Running
   \<and> expectedSafeMoves test0 = [''up'', ''right'']
   \<and> JSON_parse (runtime0 (Responded 200 (move_text ''up''))) (move_text ''up'')
        = Some (JObject [(''move'', JString ''up'')])
   \<and> map_option passed (db_get (testRuns (snd (executeTestRun
         (runtime0 (Responded 200 (move_text ''up''))) ''r1'' world_run))) ''r1'') = Some (Some True)
   \<and> JSON_parse (runtime0 (Responded 200 (move_text ''Up''))) (move_text ''Up'')
        = Some (JObject [(''move'', JString ''Up'')])
   \<and> map_option passed (db_get (testRuns (snd (executeTestRun
         (runtime0 (Responded 200 (move_text ''Up''))) ''r1'' world_run))) ''r1'') = Some (Some False)"
proof -
  have ok: "response_ok 200" by (simp add: response_ok_def)
  have ne: "move_text m \<noteq> []" for m by (simp add: move_text_def)
  have p1: "JSON_parse (runtime0 (Responded 200 (move_text ''up''))) (move_text ''up'')
        = Some (JObject [(''move'', JString ''up'')])"
    by (simp add: runtime0_def parse0_def)
  have p2: "JSON_parse (runtime0 (Responded 200 (move_text ''Up''))) (move_text ''Up'')
        = Some (JObject [(''move'', JString ''Up'')])"
    by (simp add: runtime0_def parse0_def move_text_def)
  have ex: "expectedSafeMoves test0 = [''up'', ''right'']" by (simp add: test0_def)
  from passed_iff_expected_move [OF run0_ready run0_url_nonempty run0_fetch ok ne p1]
  obtain run1 b1 where 1: "db_get (testRuns (snd (executeTestRun
         (runtime0 (Responded 200 (move_text ''up''))) ''r1'' world_run))) ''r1'' = Some run1"
      "passed run1 = Some b1"
      "b1 \<longleftrightarrow> (\<exists>m. property (JObject [(''move'', JString ''up'')]) ''move'' = Some (JString m)
                \<and> m \<in> set (expectedSafeMoves test0))"
    by blast
  from 1(3) have "b1" by (simp add: ex)
  with 1 have w1: "map_option passed (db_get (testRuns (snd (executeTestRun
         (runtime0 (Responded 200 (move_text ''up''))) ''r1'' world_run))) ''r1'') = Some (Some True)"
    by simp
  from passed_iff_expected_move [OF run0_ready run0_url_nonempty run0_fetch ok ne p2]
  obtain run2 b2 where 2: "db_get (testRuns (snd (executeTestRun
         (runtime0 (Responded 200 (move_text ''Up''))) ''r1'' world_run))) ''r1'' = Some run2"
      "passed run2 = Some b2"
      "b2 \<longleftrightarrow> (\<exists>m. property (JObject [(''move'', JString ''Up'')]) ''move'' = Some (JString m)
                \<and> m \<in> set (expectedSafeMoves test0))"
    by blast
  from 2(3) have "\<not> b2" by (simp add: ex)
  with 2 have w2: "map_option passed (db_get (testRuns (snd (executeTestRun
         (runtime0 (Responded 200 (move_text ''Up''))) ''r1'' world_run))) ''r1'') = Some (Some False)"
    by simp
  from run0_ready(1,2) ex p1 w1 p2 w2 show ?thesis by blast
qed

text \<open>
  C2: \<open>executeTestRun\<close> on a run id that is not in the store, or whose run is not
  "running", returns its error and the store as it was, with no request sent; the store
  changes only when the run is there and running; and the runs with other ids are never
  touched.
\<close>

theorem executeTestRun_guard:
  "(db_get (testRuns w) runId = None \<longrightarrow>
      executeTestRun rt runId w = (RunError ''Test run not found.'', w))
   \<and> (db_get (testRuns w) runId = Some run \<and> run_status run \<noteq> Running \<longrightarrow>
      executeTestRun rt runId w = (RunError ''Test run is not in running state.'', w))
   \<and> (snd (executeTestRun rt runId w) \<noteq> w \<longrightarrow>
      (\<exists>r. db_get (testRuns w) runId = Some r \<and> run_status r = Running))
   \<and> (j \<noteq> runId \<longrightarrow>
      db_get (testRuns (snd (executeTestRun rt runId w))) j = db_get (testRuns w) j)"
proof (intro conjI impI)
  assume "db_get (testRuns w) runId = None"
  then show "executeTestRun rt runId w = (RunError ''Test run not found.'', w)"
    by (simp add: executeTestRun_def)
next
  assume "db_get (testRuns w) runId = Some run \<and> run_status run \<noteq> Running"
  then show "executeTestRun rt runId w = (RunError ''Test run is not in running state.'', w)"
    by (simp add: executeTestRun_def)
next
  assume changed: "snd (executeTestRun rt runId w) \<noteq> w"
  show "\<exists>r. db_get (testRuns w) runId = Some r \<and> run_status r = Running"
  proof (cases "db_get (testRuns w) runId")
    case None
    then have "executeTestRun rt runId w = (RunError ''Test run not found.'', w)"
      by (simp add: executeTestRun_def)
    with changed show ?thesis by simp
  next
    case (Some r)
    show ?thesis
    proof (cases "run_status r = Running")
      case True
      with Some show ?thesis by simp
    next
      case False
      with Some have "executeTestRun rt runId w = (RunError ''Test run is not in running state.'', w)"
        by (simp add: executeTestRun_def)
      with changed show ?thesis by simp
    qed
  qed
next
  assume "j \<noteq> runId"
  then show "db_get (testRuns (snd (executeTestRun rt runId w))) j = db_get (testRuns w) j"
    by (rule executeTestRun_other_runs)
qed

theorem executeTestRun_guard_witness:
  "db_get (testRuns world_run) ''r9'' = None
   \<and> executeTestRun (runtime0 (Responded 200 [])) ''r9'' world_run =
        (RunError ''Test run not found.'', world_run)
   \<and> db_get (testRuns world_run) ''r2'' = Some (run0\<lparr>run_status := Completed\<rparr>)
   \<and> executeTestRun (runtime0 (Responded 200 [])) ''r2'' world_run =
        (RunError ''Test run is not in running state.'', world_run)
   \<and> snd (executeTestRun (runtime0 (Responded 200 [])) ''r1'' world_run) \<noteq> world_run
   \<and> map_option run_status (db_get (testRuns world_run) ''r1'') = Some Running
   \<and> db_get (testRuns (snd (executeTestRun (runtime0 (Responded 200 [])) ''r1'' world_run))) ''r2''
        = db_get (testRuns world_run) ''r2''"
proof -
  let ?rt = "runtime0 (Responded 200 [])"
  have n: "db_get (testRuns world_run) ''r9'' = None"
    by (simp add: world_run_def db_get_def)
  have c: "db_get (testRuns world_run) ''r2'' = Some (run0\<lparr>run_status := Completed\<rparr>)
      \<and> run_status (run0\<lparr>run_status := Completed\<rparr>) \<noteq> Running"
    by (simp add: world_run_def db_get_def)
  have "outbound (snd (executeTestRun ?rt ''r1'' world_run)) =
      outbound world_run @ [bot_request (trim (botUrl run0)) (testId run0) test0 snake0]"
    by (rule executeTestRun_outbound [OF run0_ready run0_url_nonempty])
  then have d: "snd (executeTestRun ?rt ''r1'' world_run) \<noteq> world_run"
    by (auto simp: world_run_def world0_def)
  note g1 = executeTestRun_guard [where w = world_run and runId = "''r9''" and rt = ?rt]
  note g2 = executeTestRun_guard [where w = world_run and runId = "''r2''" and rt = ?rt
      and run = "run0\<lparr>run_status := Completed\<rparr>"]
  note g3 = executeTestRun_guard [where w = world_run and runId = "''r1''" and rt = ?rt
      and j = "''r2''"]
  from g1 n have 1: "executeTestRun ?rt ''r9'' world_run = (RunError ''Test run not found.'', world_run)"
    by blast
  from g2 c have 2: "executeTestRun ?rt ''r2'' world_run =
      (RunError ''Test run is not in running state.'', world_run)"
    by blast
  from g3 d have "\<exists>r. db_get (testRuns world_run) ''r1'' = Some r \<and> run_status r = Running"
    by blast
  then have 3: "map_option run_status (db_get (testRuns world_run) ''r1'') = Some Running"
    by auto
  have "''r2'' \<noteq> ''r1''" by simp
  with g3 have 4: "db_get (testRuns (snd (executeTestRun ?rt ''r1'' world_run))) ''r2''
        = db_get (testRuns world_run) ''r2''"
    by blast
  from n 1 c 2 d 3 4 show ?thesis by blast
qed

text \<open>
  C3: for a running run whose test and "you" snake exist, the endpoint is the one the
  specification words: a URL that is blank after trimming makes the run fail with
  "Bot URL is required." and no request; otherwise the request goes to the trimmed URL
  without its trailing slashes, with "/move" appended unless it ends with "/move" already.
  "https://x.com" gives "https://x.com/move", and so does "https://x.com/move/".
\<close>

theorem endpoint_normalization:
  assumes "db_get (testRuns w) runId = Some run" and "run_status run = Running"
    and "db_get (tests w) (testId run) = Some t"
    and "find (\<lambda>snakeItem. snake_id snakeItem = youId t) (snakes (board t)) = Some you"
  shows "(spec_endpoint (botUrl run) = None \<longrightarrow>
           fst (executeTestRun rt runId w) = RunError ''Bot URL is required.''
           \<and> outbound (snd (executeTestRun rt runId w)) = outbound w
           \<and> db_get (testRuns (snd (executeTestRun rt runId w))) runId =
               Some (run\<lparr>run_status := Failed, move := None, shout := None, passed := None,
                       error := Some ''Bot URL is required.'', httpStatus := None,
                       rawResponse := None, responseTimeMs := None,
                       completedAt := Some (resultNow rt)\<rparr>))
       \<and> (spec_endpoint (botUrl run) = Some e \<longrightarrow>
           outbound (snd (executeTestRun rt runId w)) =
             outbound w @ [\<lparr>req_url = e, req_method = ''POST'',
                             req_headers = [(''Content-Type'', ''application/json'')],
                             req_body = build_requestBody (testId run) t you\<rparr>])
       \<and> spec_endpoint ''https://x.com'' = Some ''https://x.com/move''
       \<and> spec_endpoint ''https://x.com/move/'' = Some ''https://x.com/move''"
proof (intro conjI impI)
  assume "spec_endpoint (botUrl run) = None"
  then have empty: "trim (botUrl run) = []"
    by (simp add: spec_endpoint_refines split: if_splits)
  with assms have e: "executeTestRun rt runId w =
      (RunError ''Bot URL is required.'',
       updateTestRunResult (resultNow rt) runId (failed_with ''Bot URL is required.'') w)"
    by (simp add: executeTestRun_def)
  show "fst (executeTestRun rt runId w) = RunError ''Bot URL is required.''"
    by (simp add: e)
  show "outbound (snd (executeTestRun rt runId w)) = outbound w"
    by (simp add: e outbound_updateTestRunResult)
  show "db_get (testRuns (snd (executeTestRun rt runId w))) runId =
               Some (run\<lparr>run_status := Failed, move := None, shout := None, passed := None,
                       error := Some ''Bot URL is required.'', httpStatus := None,
                       rawResponse := None, responseTimeMs := None,
                       completedAt := Some (resultNow rt)\<rparr>)"
    using assms(1) by (simp add: e testRuns_updateTestRunResult failed_with_def)
next
  assume "spec_endpoint (botUrl run) = Some e"
  then have url: "trim (botUrl run) \<noteq> []" and e: "e = endpoint_of (trim (botUrl run))"
    by (simp_all add: spec_endpoint_refines split: if_splits)
  from executeTestRun_outbound[OF assms url]
  show "outbound (snd (executeTestRun rt runId w)) =
             outbound w @ [\<lparr>req_url = e, req_method = ''POST'',
                             req_headers = [(''Content-Type'', ''application/json'')],
                             req_body = build_requestBody (testId run) t you\<rparr>]"
    by (simp add: bot_request_def e)
next
  show "spec_endpoint ''https://x.com'' = Some ''https://x.com/move''"
    by (rule spec_endpoint_examples)
  show "spec_endpoint ''https://x.com/move/'' = Some ''https://x.com/move''"
    by (rule spec_endpoint_examples)
qed

theorem endpoint_normalization_witness:
  "spec_endpoint (botUrl run0) = Some ''https://x.com/move''
   \<and> outbound (snd (executeTestRun (runtime0 (Responded 200 [])) ''r1'' world_run)) =
        [\<lparr>req_url = ''https://x.com/move'', req_method = ''POST'',
          req_headers = [(''Content-Type'', ''application/json'')],
          req_body = build_requestBody ''t1'' test0 snake0\<rparr>]
   \<and> spec_endpoint (botUrl (run0\<lparr>botUrl := ''  ''\<rparr>)) = None
   \<and> fst (executeTestRun (runtime0 (Responded 200 [])) ''r3'' world_run) =
        RunError ''Bot URL is required.''
   \<and> outbound (snd (executeTestRun (runtime0 (Responded 200 [])) ''r3'' world_run)) = []"
proof -
  let ?rt = "runtime0 (Responded 200 [])"
  have e: "spec_endpoint (botUrl run0) = Some ''https://x.com/move''"
    by (simp add: spec_endpoint_refines run0_url run0_endpoint)
  have "trim ''  '' = []" by code_simp
  then have b: "spec_endpoint (botUrl (run0\<lparr>botUrl := ''  ''\<rparr>)) = None"
    by (simp add: spec_endpoint_refines)
  have o: "outbound world_run = []" "testId run0 = ''t1''"
    by (simp_all add: world_run_def world0_def run0_def)
  note n1 = endpoint_normalization [OF run0_ready, where rt = ?rt and e = "''https://x.com/move''"]
  note n3 = endpoint_normalization [OF run3_ready run0_ready(4), where rt = ?rt]
  from n1 e o have 1: "outbound (snd (executeTestRun ?rt ''r1'' world_run)) =
        [\<lparr>req_url = ''https://x.com/move'', req_method = ''POST'',
          req_headers = [(''Content-Type'', ''application/json'')],
          req_body = build_requestBody ''t1'' test0 snake0\<rparr>]"
    by simp
  from n3 b o have 3: "fst (executeTestRun ?rt ''r3'' world_run) = RunError ''Bot URL is required.''
      \<and> outbound (snd (executeTestRun ?rt ''r3'' world_run)) = []"
    by simp
  from e 1 b 3 show ?thesis by blast
qed

lemma executeTestRun_http_error:
  assumes "db_get (testRuns w) runId = Some run" and "run_status run = Running"
    and "db_get (tests w) (testId run) = Some t"
    and "find (\<lambda>snakeItem. snake_id snakeItem = youId t) (snakes (board t)) = Some you"
    and "trim (botUrl run) \<noteq> []"
    and "fetch rt (bot_request (trim (botUrl run)) (testId run) t you) = Responded st txt"
    and "\<not> response_ok st"
    and "(if txt \<noteq> [] then JSON_parse rt txt else Some JNull) = Some data"
  shows "executeTestRun rt runId w =
          (RunError (''HTTP '' @ decimal st),
           updateTestRunResult (resultNow rt) runId
             \<lparr>ra_status = Failed, ra_move = None, ra_shout = None, ra_passed = None,
              ra_error = Some (''HTTP '' @ decimal st),
              ra_httpStatus = Some st,
              ra_rawResponse = Some (slice_1000 (JSON_stringify rt data)),
              ra_responseTimeMs = Some (fetchEnd rt - fetchStart rt)\<rparr>
             (w\<lparr>outbound := outbound w @ [bot_request (trim (botUrl run)) (testId run) t you]\<rparr>))"
  using assms by (simp add: executeTestRun_def Let_def)

text \<open>
  C4, as stated, fails on the empty body, which \<open>JSON.parse\<close> rejects as well: the handler
  does not parse it. With status 200 the run is recorded completed, without an error; with
  status 500 it is recorded failed with the error "HTTP 500" and \<open>rawResponse\<close> "null",
  not with "Non-JSON response (500)." and the raw text.
\<close>

theorem empty_body_not_non_json_counterexample:
  "JSON_parse (runtime0 (Responded 200 [])) [] = None
   \<and> map_option run_status (db_get (testRuns (snd (executeTestRun
         (runtime0 (Responded 200 [])) ''r1'' world_run))) ''r1'') = Some Completed
   \<and> map_option error (db_get (testRuns (snd (executeTestRun
         (runtime0 (Responded 200 [])) ''r1'' world_run))) ''r1'') = Some None
   \<and> JSON_parse (runtime0 (Responded 500 [])) [] = None
   \<and> fst (executeTestRun (runtime0 (Responded 500 [])) ''r1'' world_run) = RunError ''HTTP 500''
   \<and> map_option error (db_get (testRuns (snd (executeTestRun
         (runtime0 (Responded 500 [])) ''r1'' world_run))) ''r1'') = Some (Some ''HTTP 500'')
   \<and> map_option rawResponse (db_get (testRuns (snd (executeTestRun
         (runtime0 (Responded 500 [])) ''r1'' world_run))) ''r1'') = Some (Some ''null'')"
proof -
  have p: "JSON_parse (runtime0 outcome) [] = None" for outcome
    by (simp add: runtime0_def parse0_def move_text_def)
  have n: "(if [] \<noteq> ([]::string) then JSON_parse (runtime0 outcome) [] else Some JNull) = Some JNull"
    for outcome
    by simp
  have ok: "response_ok 200" and bad: "\<not> response_ok 500"
    by (simp_all add: response_ok_def)
  have d: "decimal 500 = ''500''" by code_simp
  have j: "slice_1000 (JSON_stringify (runtime0 outcome) JNull) = ''null''" for outcome
    by (simp add: runtime0_def stringify0_def slice_1000_def)
  note e200 = executeTestRun_completed
    [OF run0_ready run0_url_nonempty run0_fetch [of "Responded 200 []"] ok n]
  note e500 = executeTestRun_http_error
    [OF run0_ready run0_url_nonempty run0_fetch [of "Responded 500 []"] bad n]
  have 1: "map_option run_status (db_get (testRuns (snd (executeTestRun
         (runtime0 (Responded 200 [])) ''r1'' world_run))) ''r1'') = Some Completed"
    unfolding e200 snd_conv testRuns_updateTestRunResult using run0_ready(1) by simp
  have 2: "map_option error (db_get (testRuns (snd (executeTestRun
         (runtime0 (Responded 200 [])) ''r1'' world_run))) ''r1'') = Some None"
    unfolding e200 snd_conv testRuns_updateTestRunResult using run0_ready(1) by simp
  have 3: "fst (executeTestRun (runtime0 (Responded 500 [])) ''r1'' world_run) = RunError ''HTTP 500''"
    unfolding e500 d by simp
  have 4: "map_option error (db_get (testRuns (snd (executeTestRun
         (runtime0 (Responded 500 [])) ''r1'' world_run))) ''r1'') = Some (Some ''HTTP 500'')"
    unfolding e500 snd_conv testRuns_updateTestRunResult d using run0_ready(1) by simp
  have 5: "map_option rawResponse (db_get (testRuns (snd (executeTestRun
         (runtime0 (Responded 500 [])) ''r1'' world_run))) ''r1'') = Some (Some ''null'')"
    unfolding e500 snd_conv testRuns_updateTestRunResult j using run0_ready(1) by simp
  from p 1 2 3 4 5 show ?thesis by blast
qed

text \<open>
  C4, amended: when the body of the response is not empty and \<open>JSON.parse\<close> throws on it,
  the run is recorded failed with the error "Non-JSON response (N)." for the status N, the
  first 1000 characters of the body as \<open>rawResponse\<close>, the status as \<open>httpStatus\<close> and the
  measured \<open>responseTimeMs\<close>; the action returns the same error.
\<close>

theorem non_json_response:
  assumes "db_get (testRuns w) runId = Some run" and "run_status run = Running"
    and "db_get (tests w) (testId run) = Some t"
    and "find (\<lambda>snakeItem. snake_id snakeItem = youId t) (snakes (board t)) = Some you"
    and "trim (botUrl run) \<noteq> []"
    and "fetch rt (bot_request (trim (botUrl run)) (testId run) t you) = Responded st txt"
    and "txt \<noteq> []" and "JSON_parse rt txt = None"
  shows "fst (executeTestRun rt runId w) = RunError (''Non-JSON response ('' @ decimal st @ '').'')
     \<and> db_get (testRuns (snd (executeTestRun rt runId w))) runId =
          Some (run\<lparr>run_status := Failed, move := None, shout := None, passed := None,
                  error := Some (''Non-JSON response ('' @ decimal st @ '').''),
                  httpStatus := Some st, rawResponse := Some (take 1000 txt),
                  responseTimeMs := Some (fetchEnd rt - fetchStart rt),
                  completedAt := Some (resultNow rt)\<rparr>)"
  unfolding executeTestRun_non_json[OF assms] fst_conv snd_conv testRuns_updateTestRunResult
  using assms(1) by (simp add: slice_1000_def)

theorem non_json_response_witness:
  "JSON_parse (runtime0 (Responded 502 ''<html>Bad Gateway</html>'')) ''<html>Bad Gateway</html>'' = None
   \<and> fst (executeTestRun (runtime0 (Responded 502 ''<html>Bad Gateway</html>'')) ''r1'' world_run)
        = RunError ''Non-JSON response (502).''
   \<and> db_get (testRuns (snd (executeTestRun (runtime0 (Responded 502 ''<html>Bad Gateway</html>''))
          ''r1'' world_run))) ''r1'' =
        Some (run0\<lparr>run_status := Failed, move := None, shout := None, passed := None,
                error := Some ''Non-JSON response (502).'', httpStatus := Some 502,
                rawResponse := Some ''<html>Bad Gateway</html>'', responseTimeMs := Some 120,
                completedAt := Some 8130\<rparr>)"
proof -
  let ?rt = "runtime0 (Responded 502 ''<html>Bad Gateway</html>'')"
  have p: "JSON_parse ?rt ''<html>Bad Gateway</html>'' = None"
    by (simp add: runtime0_def parse0_def move_text_def)
  have ne: "''<html>Bad Gateway</html>'' \<noteq> []" by simp
  have d: "decimal 502 = ''502''" by code_simp
  have t: "take 1000 ''<html>Bad Gateway</html>'' = ''<html>Bad Gateway</html>''" by simp
  have c: "fetchEnd ?rt - fetchStart ?rt = 120" "resultNow ?rt = 8130"
    by (simp_all add: runtime0_def)
  from non_json_response [OF run0_ready run0_url_nonempty run0_fetch ne p]
  have "fst (executeTestRun ?rt ''r1'' world_run) = RunError ''Non-JSON response (502).''
     \<and> db_get (testRuns (snd (executeTestRun ?rt ''r1'' world_run))) ''r1'' =
        Some (run0\<lparr>run_status := Failed, move := None, shout := None, passed := None,
                error := Some ''Non-JSON response (502).'', httpStatus := Some 502,
                rawResponse := Some ''<html>Bad Gateway</html>'', responseTimeMs := Some 120,
                completedAt := Some 8130\<rparr>)"
    unfolding d t c by simp
  with p show ?thesis by blast
qed

text \<open>
  C10: a 2xx response with an empty body is never parsed: the run is recorded completed,
  without move or shout and with \<open>passed\<close> false, whatever \<open>JSON.parse\<close> would do with the
  empty text; a body that is not empty and does not parse makes the run failed.
\<close>

theorem empty_body_completed:
  assumes "db_get (testRuns w) runId = Some run" and "run_status run = Running"
    and "db_get (tests w) (testId run) = Some t"
    and "find (\<lambda>snakeItem. snake_id snakeItem = youId t) (snakes (board t)) = Some you"
    and "trim (botUrl run) \<noteq> []"
    and "fetch rt (bot_request (trim (botUrl run)) (testId run) t you) = Responded st txt"
    and "response_ok st"
  shows "(txt = [] \<longrightarrow>
          fst (executeTestRun rt runId w) = RunOk None None False (fetchEnd rt - fetchStart rt)
          \<and> db_get (testRuns (snd (executeTestRun rt runId w))) runId =
              Some (run\<lparr>run_status := Completed, move := None, shout := None,
                      passed := Some False, error := None, httpStatus := Some st,
                      rawResponse := Some (take 1000 (JSON_stringify rt JNull)),
                      responseTimeMs := Some (fetchEnd rt - fetchStart rt),
                      completedAt := Some (resultNow rt)\<rparr>))
     \<and> (txt \<noteq> [] \<and> JSON_parse rt txt = None \<longrightarrow>
          map_option run_status (db_get (testRuns (snd (executeTestRun rt runId w))) runId)
            = Some Failed)"
proof (intro conjI impI)
  assume "txt = []"
  then have p: "(if txt \<noteq> [] then JSON_parse rt txt else Some JNull) = Some JNull"
    by simp
  note e = executeTestRun_completed[OF assms p]
  show "fst (executeTestRun rt runId w) = RunOk None None False (fetchEnd rt - fetchStart rt)"
    unfolding e by simp
  show "db_get (testRuns (snd (executeTestRun rt runId w))) runId =
              Some (run\<lparr>run_status := Completed, move := None, shout := None,
                      passed := Some False, error := None, httpStatus := Some st,
                      rawResponse := Some (take 1000 (JSON_stringify rt JNull)),
                      responseTimeMs := Some (fetchEnd rt - fetchStart rt),
                      completedAt := Some (resultNow rt)\<rparr>)"
    unfolding e snd_conv testRuns_updateTestRunResult using assms(1)
    by (simp add: slice_1000_def)
next
  assume "txt \<noteq> [] \<and> JSON_parse rt txt = None"
  then have n: "txt \<noteq> []" "JSON_parse rt txt = None" by simp_all
  show "map_option run_status (db_get (testRuns (snd (executeTestRun rt runId w))) runId)
            = Some Failed"
    unfolding executeTestRun_non_json[OF assms(1-6) n] snd_conv testRuns_updateTestRunResult
    using assms(1) by simp
qed

theorem empty_body_completed_witness:
  "response_ok 200
   \<and> JSON_parse (runtime0 (Responded 200 [])) [] = None
   \<and> fst (executeTestRun (runtime0 (Responded 200 [])) ''r1'' world_run) = RunOk None None False 120
   \<and> db_get (testRuns (snd (executeTestRun (runtime0 (Responded 200 [])) ''r1'' world_run))) ''r1'' =
        Some (run0\<lparr>run_status := Completed, move := None, shout := None,
                passed := Some False, error := None, httpStatus := Some 200,
                rawResponse := Some ''null'', responseTimeMs := Some 120,
                completedAt := Some 8130\<rparr>)
   \<and> JSON_parse (runtime0 (Responded 200 ''oops'')) ''oops'' = None
   \<and> map_option run_status (db_get (testRuns (snd (executeTestRun (runtime0 (Responded 200 ''oops''))
          ''r1'' world_run))) ''r1'') = Some Failed"
proof -
  let ?rt = "runtime0 (Responded 200 [])"
  let ?rt2 = "runtime0 (Responded 200 ''oops'')"
  have ok: "response_ok 200" by (simp add: response_ok_def)
  have p0: "JSON_parse ?rt [] = None"
    by (simp add: runtime0_def parse0_def move_text_def)
  have p2: "''oops'' \<noteq> [] \<and> JSON_parse ?rt2 ''oops'' = None"
    by (simp add: runtime0_def parse0_def move_text_def)
  have c: "fetchEnd ?rt - fetchStart ?rt = 120" "resultNow ?rt = 8130"
      "take 1000 (JSON_stringify ?rt JNull) = ''null''"
    by (simp_all add: runtime0_def stringify0_def)
  from empty_body_completed [OF run0_ready run0_url_nonempty run0_fetch [of "Responded 200 []"] ok]
  have 1: "fst (executeTestRun ?rt ''r1'' world_run) = RunOk None None False 120
     \<and> db_get (testRuns (snd (executeTestRun ?rt ''r1'' world_run))) ''r1'' =
        Some (run0\<lparr>run_status := Completed, move := None, shout := None,
                passed := Some False, error := None, httpStatus := Some 200,
                rawResponse := Some ''null'', responseTimeMs := Some 120,
                completedAt := Some 8130\<rparr>)"
    unfolding c by simp
  from empty_body_completed [OF run0_ready run0_url_nonempty run0_fetch [of "Responded 200 ''oops''"] ok] p2
  have 2: "map_option run_status (db_get (testRuns (snd (executeTestRun ?rt2 ''r1'' world_run))) ''r1'')
      = Some Failed"
    by blast
  from ok p0 1 p2 2 show ?thesis by blast
qed

end
